theory Spec2Isabelle
  imports Complex_Main "HOL-Library.Word" "HOL-Library.Code_Target_Nat"
begin

section \<open>JavaScript values\<close>

text \<open>
  The sequential-thinking server is the class \<open>SequentialThinkingServer\<close>, which the
  entry point imports from \<open>server2\<close>. Its method \<open>processThought\<close> takes a value of type
  \<open>unknown\<close>. The values modelled here are the ones a JSON payload can carry:
  \<open>undefined\<close> (an absent property), \<open>null\<close>, booleans, numbers, strings, arrays
  and plain objects whose prototype is \<open>Object.prototype\<close>.

  A string is the list of its UTF-16 code units, which is what \<open>.length\<close>,
  \<open>padEnd\<close> and \<open>repeat\<close> count.
\<close>

type_synonym jsstring = "16 word list"

definition ascii :: "string \<Rightarrow> jsstring" where
  "ascii s = map (\<lambda>c. of_nat (of_char c)) s"

text \<open>
  A number is an IEEE double. The program only tests numbers for truthiness, compares
  them with \<open>>\<close> and prints them, so a double is either \<open>NaN\<close>, an infinity, or the
  rational it denotes (both zeros are \<open>Fin 0\<close>: they are equal, falsy and print alike).
\<close>

datatype jsnum = NaN | NegInf | Fin rat | PosInf

datatype jsval =
    JUndefined
  | JNull
  | JBool bool
  | JNum jsnum
  | JStr jsstring
  | JArr "jsval list"
  | JObj "(jsstring \<times> jsval) list"

text \<open>\<open>a > b\<close> on two numbers: false as soon as one side is \<open>NaN\<close>.\<close>

fun gt :: "jsnum \<Rightarrow> jsnum \<Rightarrow> bool" where
  "gt NaN _ = False"
| "gt _ NaN = False"
| "gt NegInf _ = False"
| "gt (Fin a) NegInf = True"
| "gt (Fin a) (Fin b) = (b < a)"
| "gt (Fin a) PosInf = False"
| "gt PosInf PosInf = False"
| "gt PosInf _ = True"

text \<open>
  \<open>ToBoolean\<close>: the falsy values are \<open>undefined\<close>, \<open>null\<close>, \<open>false\<close>, zero, \<open>NaN\<close>
  and the empty string; every array and object is truthy.
\<close>

fun truthy :: "jsval \<Rightarrow> bool" where
  "truthy JUndefined = False"
| "truthy JNull = False"
| "truthy (JBool b) = b"
| "truthy (JNum n) = (n \<noteq> Fin 0 \<and> n \<noteq> NaN)"
| "truthy (JStr s) = (s \<noteq> [])"
| "truthy (JArr _) = True"
| "truthy (JObj _) = True"

fun typeof :: "jsval \<Rightarrow> string" where
  "typeof JUndefined = ''undefined''"
| "typeof JNull = ''object''"
| "typeof (JBool _) = ''boolean''"
| "typeof (JNum _) = ''number''"
| "typeof (JStr _) = ''string''"
| "typeof (JArr _) = ''object''"
| "typeof (JObj _) = ''object''"

text \<open>
  What is thrown. \<open>Error m\<close> is \<open>new Error(m)\<close>; a \<open>TypeError\<close> is raised by the
  engine itself, at one of three places, and its message is the engine's.
\<close>

datatype type_error_site =
    CannotReadProperty jsval jsstring
  | NotAFunction
  | CannotConvertToPrimitive

datatype jserror = Error jsstring | TypeError type_error_site

text \<open>
  \<open>data.name\<close> for a \<open>name\<close> that no prototype defines (none of the nine field names
  of \<open>ThoughtData\<close> is a property of \<open>Object.prototype\<close>, \<open>Array.prototype\<close> or of a
  primitive's wrapper): the own property of a plain object, \<open>undefined\<close> on anything
  else, and a \<open>TypeError\<close> on \<open>undefined\<close> and \<open>null\<close>.
\<close>

fun get_property :: "jsval \<Rightarrow> jsstring \<Rightarrow> jserror + jsval" where
  "get_property JUndefined name = Inl (TypeError (CannotReadProperty JUndefined name))"
| "get_property JNull name = Inl (TypeError (CannotReadProperty JNull name))"
| "get_property (JObj kvs) name =
     Inr (case map_of kvs name of None \<Rightarrow> JUndefined | Some v \<Rightarrow> v)"
| "get_property _ name = Inr JUndefined"

section \<open>ThoughtData and its validator\<close>

text \<open>
  The interface \<open>ThoughtData\<close>. The four required fields are type-checked by the
  validator at run time, so they carry their type. The five optional fields are cast
  (\<open>data.isRevision as boolean | undefined\<close>) without any check, so they carry whatever
  value the input had.
\<close>

record ThoughtData =
  thought :: jsstring
  thoughtNumber :: jsnum
  totalThoughts :: jsnum
  isRevision :: jsval
  revisesThought :: jsval
  branchFromThought :: jsval
  branchId :: jsval
  needsMoreThoughts :: jsval
  nextThoughtNeeded :: bool

text \<open>The narrowing that TypeScript derives from a passed \<open>typeof\<close> test.\<close>

fun as_string :: "jsval \<Rightarrow> jsstring" where
  "as_string (JStr s) = s"
| "as_string _ = []"

fun as_number :: "jsval \<Rightarrow> jsnum" where
  "as_number (JNum n) = n"
| "as_number _ = NaN"

fun as_boolean :: "jsval \<Rightarrow> bool" where
  "as_boolean (JBool b) = b"
| "as_boolean _ = False"

text \<open>
  \<open>validateThoughtData\<close>. The first property read, \<open>data.thought\<close>, is the one that
  throws on \<open>undefined\<close> and \<open>null\<close>; after it \<open>data\<close> is known to be neither, and
  \<open>field\<close> reads a property of it.
\<close>

definition field :: "jsval \<Rightarrow> string \<Rightarrow> jsval" where
  "field data name = (case get_property data (ascii name) of Inl _ \<Rightarrow> JUndefined | Inr v \<Rightarrow> v)"

definition validateThoughtData :: "jsval \<Rightarrow> jserror + ThoughtData" where
  "validateThoughtData data =
    (case get_property data (ascii ''thought'') of
       Inl e \<Rightarrow> Inl e
     | Inr data_thought \<Rightarrow>
        if \<not> truthy data_thought \<or> typeof data_thought \<noteq> ''string'' then
          Inl (Error (ascii ''Invalid thought: must be a string''))
        else if \<not> truthy (field data ''thoughtNumber'')
                \<or> typeof (field data ''thoughtNumber'') \<noteq> ''number'' then
          Inl (Error (ascii ''Invalid thoughtNumber: must be a number''))
        else if \<not> truthy (field data ''totalThoughts'')
                \<or> typeof (field data ''totalThoughts'') \<noteq> ''number'' then
          Inl (Error (ascii ''Invalid totalThoughts: must be a number''))
        else if typeof (field data ''nextThoughtNeeded'') \<noteq> ''boolean'' then
          Inl (Error (ascii ''Invalid nextThoughtNeeded: must be a boolean''))
        else
          Inr \<lparr> thought = as_string data_thought,
                thoughtNumber = as_number (field data ''thoughtNumber''),
                totalThoughts = as_number (field data ''totalThoughts''),
                isRevision = field data ''isRevision'',
                revisesThought = field data ''revisesThought'',
                branchFromThought = field data ''branchFromThought'',
                branchId = field data ''branchId'',
                needsMoreThoughts = field data ''needsMoreThoughts'',
                nextThoughtNeeded = as_boolean (field data ''nextThoughtNeeded'') \<rparr>)"

text \<open>
  The shapes that pass the validator's three kinds of test: \<open>!x || typeof x !== 'string'\<close>
  lets through the non-empty strings, \<open>!x || typeof x !== 'number'\<close> the numbers other than
  zero and \<open>NaN\<close>, and \<open>typeof x !== 'boolean'\<close> the two booleans.
\<close>

definition non_empty_string :: "jsval \<Rightarrow> bool" where
  "non_empty_string x = (case x of JStr t \<Rightarrow> t \<noteq> [] | _ \<Rightarrow> False)"

definition non_zero_number :: "jsval \<Rightarrow> bool" where
  "non_zero_number x = (case x of JNum n \<Rightarrow> n \<noteq> Fin 0 \<and> n \<noteq> NaN | _ \<Rightarrow> False)"

definition is_boolean :: "jsval \<Rightarrow> bool" where
  "is_boolean x = (case x of JBool _ \<Rightarrow> True | _ \<Rightarrow> False)"

section \<open>What the engine and the libraries supply\<close>

text \<open>
  Three things the class uses are not its own code and are taken as parameters:
  \<^item> the digits that \<open>Number.prototype.toString\<close> gives a finite number that is not an
    integer of magnitude below \<open>10^21\<close> (the shortest digits that read back as the same
    double);
  \<^item> the three colour functions of the \<open>chalk\<close> package, which wrap a string in
    escape sequences when colours are enabled and return it unchanged otherwise;
  \<^item> the message text of a \<open>TypeError\<close> raised by the engine.
\<close>

record engine =
  shortest_digits :: "rat \<Rightarrow> jsstring"
  chalk_yellow :: "jsstring \<Rightarrow> jsstring"
  chalk_green :: "jsstring \<Rightarrow> jsstring"
  chalk_blue :: "jsstring \<Rightarrow> jsstring"
  TypeError_message :: "type_error_site \<Rightarrow> jsstring"

text \<open>
  \<open>Number.prototype.toString\<close>, used by every template literal that embeds a number, by a
  numeric property key and by \<open>JSON.stringify\<close>: an integer of magnitude below \<open>10^21\<close>
  is printed in decimal, with its sign; \<open>NaN\<close> and the infinities have names.
\<close>

fun decimal :: "nat \<Rightarrow> jsstring" where
  "decimal n = (if n < 10 then [of_nat (48 + n)] else decimal (n div 10) @ [of_nat (48 + n mod 10)])"

definition Number_toString :: "engine \<Rightarrow> jsnum \<Rightarrow> jsstring" where
  "Number_toString E n =
    (case n of
       NaN \<Rightarrow> ascii ''NaN''
     | PosInf \<Rightarrow> ascii ''Infinity''
     | NegInf \<Rightarrow> ascii ''-Infinity''
     | Fin q \<Rightarrow>
        (case quotient_of q of
           (a, b) \<Rightarrow>
             if b = 1 \<and> \<bar>a\<bar> < 10 ^ 21
             then (if a < 0 then ascii ''-'' else []) @ decimal (nat \<bar>a\<bar>)
             else shortest_digits E q))"

text \<open>
  \<open>ToString\<close>, which a template literal applies to each embedded value and a
  computed property access applies to its key. An array prints its elements joined by
  commas, \<open>undefined\<close> and \<open>null\<close> elements as nothing. A plain object prints as
  \<open>[object Object]\<close> through \<open>Object.prototype.toString\<close>, unless it has an own
  property \<open>toString\<close>: a JSON value is never callable, the inherited \<open>valueOf\<close>
  returns the object itself, and the conversion ends in a \<open>TypeError\<close>.
\<close>

fun ToString :: "engine \<Rightarrow> jsval \<Rightarrow> jserror + jsstring"
  and join :: "engine \<Rightarrow> jsval list \<Rightarrow> jserror + jsstring" where
  "ToString E JUndefined = Inr (ascii ''undefined'')"
| "ToString E JNull = Inr (ascii ''null'')"
| "ToString E (JBool b) = Inr (ascii (if b then ''true'' else ''false''))"
| "ToString E (JNum n) = Inr (Number_toString E n)"
| "ToString E (JStr s) = Inr s"
| "ToString E (JArr xs) = join E xs"
| "ToString E (JObj kvs) =
     (if map_of kvs (ascii ''toString'') \<noteq> None then Inl (TypeError CannotConvertToPrimitive)
      else Inr (ascii ''[object Object]''))"
| "join E [] = Inr []"
| "join E (x # xs) =
     (case (if x = JUndefined \<or> x = JNull then Inr [] else ToString E x) of
        Inl e \<Rightarrow> Inl e
      | Inr s \<Rightarrow>
         (case join E xs of
            Inl e \<Rightarrow> Inl e
          | Inr rest \<Rightarrow> Inr (if xs = [] then s else s @ ascii '','' @ rest)))"

section \<open>JSON.stringify\<close>

text \<open>
  \<open>JSON.stringify(value, null, 2)\<close>, as both \<open>return\<close> statements of \<open>processThought\<close> call
  it. \<open>QuoteJSONString\<close> escapes the quotation mark, the backslash, the control characters
  (five of them by a letter, the others by a backslash, the letter u and four lower-case
  hexadecimal digits)
  and every surrogate that is not half of a pair.
\<close>

definition hex_digit :: "nat \<Rightarrow> 16 word" where
  "hex_digit d = of_nat (if d < 10 then 48 + d else 87 + d)"

definition UnicodeEscape :: "16 word \<Rightarrow> jsstring" where
  "UnicodeEscape c =
    [0x5C, 0x75, hex_digit (unat c div 4096), hex_digit (unat c div 256 mod 16),
     hex_digit (unat c div 16 mod 16), hex_digit (unat c mod 16)]"

definition quote_unit :: "16 word \<Rightarrow> jsstring" where
  "quote_unit c =
    (if c = 0x08 then [0x5C, 0x62]
     else if c = 0x09 then [0x5C, 0x74]
     else if c = 0x0A then [0x5C, 0x6E]
     else if c = 0x0C then [0x5C, 0x66]
     else if c = 0x0D then [0x5C, 0x72]
     else if c = 0x22 then [0x5C, 0x22]
     else if c = 0x5C then [0x5C, 0x5C]
     else if c < 0x20 \<or> (0xD800 \<le> c \<and> c \<le> 0xDFFF) then UnicodeEscape c
     else [c])"

fun quote_units :: "jsstring \<Rightarrow> jsstring" where
  "quote_units [] = []"
| "quote_units [c] = quote_unit c"
| "quote_units (c # d # ds) =
     (if 0xD800 \<le> c \<and> c \<le> 0xDBFF \<and> 0xDC00 \<le> d \<and> d \<le> 0xDFFF
      then c # d # quote_units ds
      else quote_unit c @ quote_units (d # ds))"

definition QuoteJSONString :: "jsstring \<Rightarrow> jsstring" where
  "QuoteJSONString s = [0x22] @ quote_units s @ [0x22]"

text \<open>
  The layout with a gap of two spaces: an empty array or object is written without a
  line break; otherwise every element or member is on a line of its own, indented one
  step further than the closing bracket, and a comma ends every line but the last.
\<close>

definition indent :: "nat \<Rightarrow> jsstring" where
  "indent depth = replicate (2 * depth) 0x20"

fun join_with :: "jsstring \<Rightarrow> jsstring list \<Rightarrow> jsstring" where
  "join_with separator [] = []"
| "join_with separator [x] = x"
| "join_with separator (x # y # ys) = x @ separator @ join_with separator (y # ys)"

definition bracketed :: "16 word \<Rightarrow> 16 word \<Rightarrow> nat \<Rightarrow> jsstring list \<Rightarrow> jsstring" where
  "bracketed opening closing depth partial =
    (if partial = [] then [opening, closing]
     else [opening, 0x0A] @ indent (depth + 1)
          @ join_with ([0x2C, 0x0A] @ indent (depth + 1)) partial
          @ [0x0A] @ indent depth @ [closing])"

text \<open>
  \<open>SerializeJSONProperty\<close>: \<open>None\<close> is \<open>undefined\<close>, which drops a member of an object and
  is written \<open>null\<close> in an array. A number that is not finite is written \<open>null\<close>. The
  members of an object are written in the order of its list, which for an object
  literal without numeric keys is the order of the source.
\<close>

fun SerializeJSONProperty :: "engine \<Rightarrow> nat \<Rightarrow> jsval \<Rightarrow> jsstring option"
  and elements :: "engine \<Rightarrow> nat \<Rightarrow> jsval list \<Rightarrow> jsstring list"
  and members :: "engine \<Rightarrow> nat \<Rightarrow> (jsstring \<times> jsval) list \<Rightarrow> jsstring list" where
  "SerializeJSONProperty E depth JUndefined = None"
| "SerializeJSONProperty E depth JNull = Some (ascii ''null'')"
| "SerializeJSONProperty E depth (JBool b) = Some (ascii (if b then ''true'' else ''false''))"
| "SerializeJSONProperty E depth (JNum n) =
     Some (if n = NaN \<or> n = PosInf \<or> n = NegInf then ascii ''null'' else Number_toString E n)"
| "SerializeJSONProperty E depth (JStr s) = Some (QuoteJSONString s)"
| "SerializeJSONProperty E depth (JArr xs) =
     Some (bracketed 0x5B 0x5D depth (elements E (depth + 1) xs))"
| "SerializeJSONProperty E depth (JObj kvs) =
     Some (bracketed 0x7B 0x7D depth (members E (depth + 1) kvs))"
| "elements E depth [] = []"
| "elements E depth (x # xs) =
     (case SerializeJSONProperty E depth x of None \<Rightarrow> ascii ''null'' | Some str \<Rightarrow> str)
     # elements E depth xs"
| "members E depth [] = []"
| "members E depth ((key, v) # kvs) =
     (case SerializeJSONProperty E depth v of
        None \<Rightarrow> members E depth kvs
      | Some str \<Rightarrow> (QuoteJSONString key @ [0x3A, 0x20] @ str) # members E depth kvs)"

text \<open>\<open>JSON.stringify(o, null, 2)\<close> for an object literal \<open>o\<close>: always a string.\<close>

definition JSON_stringify :: "engine \<Rightarrow> (jsstring \<times> jsval) list \<Rightarrow> jsstring" where
  "JSON_stringify E o_members = bracketed 0x7B 0x7D 0 (members E 1 o_members)"

section \<open>formatThought\<close>

text \<open>
  The non-ASCII string literals are given by their code units, as the TypeScript file
  holds them: each of the three labels begins with four units, and the horizontal bar,
  the vertical bar and the six corners and tees are three units each. (The compiled
  JavaScript copy of the class holds a pictograph of two units and box-drawing
  characters of one unit in their places.)
  The local variables \<open>prefix\<close>, \<open>context\<close>, \<open>header\<close> and \<open>border\<close> of the method are
  the functions \<open>prefix_of\<close>, \<open>context_of\<close>, \<open>header_of\<close> and \<open>border_of\<close>.
\<close>

definition prefix_of :: "engine \<Rightarrow> ThoughtData \<Rightarrow> jsstring" where
  "prefix_of E thoughtData =
    (if truthy (isRevision thoughtData) then
       chalk_yellow E ([0xF8FF, 0xFC, 0xEE, 0xD1] @ ascii '' Revision'')
     else if truthy (branchFromThought thoughtData) then
       chalk_green E ([0xF8FF, 0xFC, 0xE5, 0xF8] @ ascii '' Branch'')
     else
       chalk_blue E ([0xF8FF, 0xFC, 0xED, 0x2260] @ ascii '' Thought''))"

definition context_of :: "engine \<Rightarrow> ThoughtData \<Rightarrow> jserror + jsstring" where
  "context_of E thoughtData =
    (if truthy (isRevision thoughtData) then
       (case ToString E (revisesThought thoughtData) of
          Inl e \<Rightarrow> Inl e
        | Inr n \<Rightarrow> Inr (ascii '' (revising thought '' @ n @ ascii '')''))
     else if truthy (branchFromThought thoughtData) then
       (case ToString E (branchFromThought thoughtData) of
          Inl e \<Rightarrow> Inl e
        | Inr n \<Rightarrow>
           (case ToString E (branchId thoughtData) of
              Inl e \<Rightarrow> Inl e
            | Inr x \<Rightarrow> Inr (ascii '' (from thought '' @ n @ ascii '', ID: '' @ x @ ascii '')'')))
     else
       Inr [])"

definition header_of :: "engine \<Rightarrow> ThoughtData \<Rightarrow> jserror + jsstring" where
  "header_of E thoughtData =
    (case context_of E thoughtData of
       Inl e \<Rightarrow> Inl e
     | Inr context \<Rightarrow>
        Inr (prefix_of E thoughtData @ ascii '' ''
             @ Number_toString E (thoughtNumber thoughtData) @ ascii ''/''
             @ Number_toString E (totalThoughts thoughtData) @ context))"

text \<open>\<open>s.repeat(n)\<close>: \<open>n\<close> copies of \<open>s\<close>, one after the other.\<close>

definition repeat :: "jsstring \<Rightarrow> nat \<Rightarrow> jsstring" where
  "repeat s n = concat (replicate n s)"

definition border_of :: "jsstring \<Rightarrow> jsstring \<Rightarrow> jsstring" where
  "border_of header thought_text =
     repeat [0x201A, 0xEE, 0xC4] (max (length header) (length thought_text) + 4)"

text \<open>\<open>s.padEnd(n)\<close>: spaces appended up to length \<open>n\<close>, nothing when \<open>s\<close> is as long.\<close>

definition padEnd :: "jsstring \<Rightarrow> nat \<Rightarrow> jsstring" where
  "padEnd s n = s @ replicate (n - length s) 0x20"

text \<open>The five rows of the template literal, each after its line feed.\<close>

definition top_row :: "jsstring \<Rightarrow> jsstring" where
  "top_row border = [0x201A, 0xEE, 0xE5] @ border @ [0x201A, 0xEE, 0xEA]"

definition header_row :: "jsstring \<Rightarrow> jsstring" where
  "header_row header = [0x201A, 0xEE, 0xC7, 0x20] @ header @ [0x20, 0x201A, 0xEE, 0xC7]"

definition separator_row :: "jsstring \<Rightarrow> jsstring" where
  "separator_row border = [0x201A, 0xEE, 0xFA] @ border @ [0x201A, 0xEE, 0xA7]"

definition body_row :: "jsstring \<Rightarrow> jsstring \<Rightarrow> jsstring" where
  "body_row border thought_text =
     [0x201A, 0xEE, 0xC7, 0x20] @ padEnd thought_text (length border - 2)
     @ [0x20, 0x201A, 0xEE, 0xC7]"

definition bottom_row :: "jsstring \<Rightarrow> jsstring" where
  "bottom_row border = [0x201A, 0xEE, 0xEE] @ border @ [0x201A, 0xEE, 0xF2]"

definition formatThought :: "engine \<Rightarrow> ThoughtData \<Rightarrow> jserror + jsstring" where
  "formatThought E thoughtData =
    (case header_of E thoughtData of
       Inl e \<Rightarrow> Inl e
     | Inr header \<Rightarrow>
        (let border = border_of header (thought thoughtData)
         in Inr ([0x0A] @ top_row border
                 @ [0x0A] @ header_row header
                 @ [0x0A] @ separator_row border
                 @ [0x0A] @ body_row border (thought thoughtData)
                 @ [0x0A] @ bottom_row border)))"




section \<open>The session state\<close>

text \<open>
  The two private fields of the class, and the lines written by \<open>Logger.log\<close>.
  \<open>branches\<close> is a plain object created by \<open>{}\<close>: its own properties are kept in
  creation order, and it inherits from \<open>Object.prototype\<close>.
\<close>

record SequentialThinkingServer =
  thoughtHistory :: "ThoughtData list"
  branches :: "(jsstring \<times> ThoughtData list) list"
  logged :: "jsstring list"

definition new_server :: SequentialThinkingServer where
  "new_server = \<lparr> thoughtHistory = [], branches = [], logged = [] \<rparr>"

definition Object_prototype_names :: "jsstring list" where
  "Object_prototype_names = map ascii
     [''constructor'', ''__defineGetter__'', ''__defineSetter__'', ''hasOwnProperty'',
      ''__lookupGetter__'', ''__lookupSetter__'', ''isPrototypeOf'',
      ''propertyIsEnumerable'', ''toString'', ''valueOf'', ''__proto__'',
      ''toLocaleString'']"

text \<open>
  \<open>this.branches[key]\<close> is an own property (an array, always truthy), or a property
  inherited from \<open>Object.prototype\<close> (a function or the prototype object: truthy, and
  without a method \<open>push\<close>), or \<open>undefined\<close>.
\<close>

datatype property = Absent | Own "ThoughtData list" | Inherited

definition branches_get :: "(jsstring \<times> ThoughtData list) list \<Rightarrow> jsstring \<Rightarrow> property" where
  "branches_get bs key =
    (case map_of bs key of
       Some records \<Rightarrow> Own records
     | None \<Rightarrow> if key \<in> set Object_prototype_names then Inherited else Absent)"

definition push_to :: "jsstring \<Rightarrow> ThoughtData \<Rightarrow> (jsstring \<times> ThoughtData list) list
    \<Rightarrow> (jsstring \<times> ThoughtData list) list" where
  "push_to key record bs = map (\<lambda>(k, records). if k = key then (k, records @ [record]) else (k, records)) bs"

text \<open>
  \<open>Object.keys\<close> lists the own keys that are array indices (canonical decimal numerals
  below \<open>2^32 - 1\<close>) first, in ascending numeric order, then the others in creation order.
\<close>

definition index_value :: "jsstring \<Rightarrow> nat" where
  "index_value s = foldl (\<lambda>n c. 10 * n + (unat c - 48)) 0 s"

definition is_array_index :: "jsstring \<Rightarrow> bool" where
  "is_array_index s \<longleftrightarrow>
     s \<noteq> [] \<and> list_all (\<lambda>c. 0x30 \<le> c \<and> c \<le> 0x39) s
     \<and> (length s = 1 \<or> hd s \<noteq> 0x30) \<and> index_value s < 2 ^ 32 - 1"

definition Object_keys :: "(jsstring \<times> 'a) list \<Rightarrow> jsstring list" where
  "Object_keys obj =
    (let ks = map fst obj
     in sort_key index_value (filter is_array_index ks) @ filter (\<lambda>k. \<not> is_array_index k) ks)"

section \<open>processThought\<close>

text \<open>
  The response envelope. \<open>text\<close> is the string that \<open>JSON.stringify\<close> returns. \<open>isError\<close>
  is \<open>None\<close> where the object literal has no such property.
\<close>

record content_item =
  "type" :: jsstring
  "text" :: jsstring

record envelope =
  content :: "content_item list"
  isError :: "bool option"

definition message :: "engine \<Rightarrow> jserror \<Rightarrow> jsstring" where
  "message E error = (case error of Error m \<Rightarrow> m | TypeError site \<Rightarrow> TypeError_message E site)"

text \<open>The object returned by the \<open>catch\<close> block.\<close>

definition error_response :: "engine \<Rightarrow> jserror \<Rightarrow> envelope" where
  "error_response E error =
    \<lparr> content = [\<lparr> type = ascii ''text'',
                    text = JSON_stringify E
                             [(ascii ''error'', JStr (message E error)),
                              (ascii ''status'', JStr (ascii ''failed''))] \<rparr>],
      isError = Some True \<rparr>"

text \<open>
  The object literal of lines 125 to 131, which reads \<open>this.branches\<close> and
  \<open>this.thoughtHistory\<close>, and the object returned at the end of the \<open>try\<close> block. The
  state is passed through.
\<close>

definition success_body :: "ThoughtData \<Rightarrow> SequentialThinkingServer \<Rightarrow> (jsstring \<times> jsval) list" where
  "success_body validatedInput this =
    [(ascii ''thoughtNumber'', JNum (thoughtNumber validatedInput)),
     (ascii ''totalThoughts'', JNum (totalThoughts validatedInput)),
     (ascii ''nextThoughtNeeded'', JBool (nextThoughtNeeded validatedInput)),
     (ascii ''branches'', JArr (map JStr (Object_keys (branches this)))),
     (ascii ''thoughtHistoryLength'', JNum (Fin (of_nat (length (thoughtHistory this)))))]"

definition success_response :: "engine \<Rightarrow> ThoughtData \<Rightarrow> SequentialThinkingServer
    \<Rightarrow> envelope \<times> SequentialThinkingServer" where
  "success_response E validatedInput this =
    (\<lparr> content = [\<lparr> type = ascii ''text'',
                     text = JSON_stringify E (success_body validatedInput this) \<rparr>],
       isError = None \<rparr>,
     this)"

text \<open>
  Lines 112 to 117: the registration in \<open>branches\<close>. The key is \<open>ToString\<close> of
  \<open>branchId\<close>. A \<open>TypeError\<close> leaves \<open>branches\<close> as it was.
\<close>

definition register_branch :: "engine \<Rightarrow> ThoughtData \<Rightarrow> SequentialThinkingServer
    \<Rightarrow> jserror + SequentialThinkingServer" where
  "register_branch E validatedInput this =
    (if truthy (branchFromThought validatedInput) \<and> truthy (branchId validatedInput) then
       (case ToString E (branchId validatedInput) of
          Inl e \<Rightarrow> Inl e
        | Inr key \<Rightarrow>
           (let bs = (case branches_get (branches this) key of
                        Absent \<Rightarrow> branches this @ [(key, [])]
                      | _ \<Rightarrow> branches this)
            in (case branches_get bs key of
                  Own _ \<Rightarrow> Inr (this\<lparr>branches := push_to key validatedInput bs\<rparr>)
                | _ \<Rightarrow> Inl (TypeError NotAFunction))))
     else Inr this)"

text \<open>Lines 106 to 108: the assignment to \<open>validatedInput.totalThoughts\<close>.\<close>

definition self_correct :: "ThoughtData \<Rightarrow> ThoughtData" where
  "self_correct validatedInput =
    (if gt (thoughtNumber validatedInput) (totalThoughts validatedInput)
     then validatedInput\<lparr>totalThoughts := thoughtNumber validatedInput\<rparr>
     else validatedInput)"

text \<open>
  The method. An exception thrown anywhere in the \<open>try\<close> block is caught, and the state
  is then the one reached when it was thrown.
\<close>

definition processThought :: "engine \<Rightarrow> jsval \<Rightarrow> SequentialThinkingServer
    \<Rightarrow> envelope \<times> SequentialThinkingServer" where
  "processThought E input this =
    (case validateThoughtData input of
       Inl e \<Rightarrow> (error_response E e, this)
     | Inr validated \<Rightarrow>
        (let validatedInput = self_correct validated;
             this1 = this\<lparr>thoughtHistory := thoughtHistory this @ [validatedInput]\<rparr>
         in (case register_branch E validatedInput this1 of
               Inl e \<Rightarrow> (error_response E e, this1)
             | Inr this2 \<Rightarrow>
                (case formatThought E validatedInput of
                   Inl e \<Rightarrow> (error_response E e, this2)
                 | Inr formattedThought \<Rightarrow>
                    success_response E validatedInput
                      (this2\<lparr>logged := logged this2 @ [formattedThought]\<rparr>)))))"

text \<open>
  Lines 113 to 116 taken together, for a key that is an own property or is not defined
  at all: the sequence is created when missing, and the record is pushed.
\<close>

definition registered :: "jsstring \<Rightarrow> ThoughtData \<Rightarrow> (jsstring \<times> ThoughtData list) list
    \<Rightarrow> (jsstring \<times> ThoughtData list) list" where
  "registered key r bs =
     push_to key r (case map_of bs key of None \<Rightarrow> bs @ [(key, [])] | Some _ \<Rightarrow> bs)"

text \<open>A session: the calls of a list of inputs, one after the other.\<close>

fun run :: "engine \<Rightarrow> jsval list \<Rightarrow> SequentialThinkingServer \<Rightarrow> SequentialThinkingServer" where
  "run E [] this = this"
| "run E (input # inputs) this = run E inputs (snd (processThought E input this))"

section \<open>An engine for the examples\<close>

text \<open>
  The examples are evaluated with colours switched off (\<open>chalk\<close> then returns its
  argument) and with the message texts of V8. No example prints a number that is not
  an integer below \<open>10^21\<close>, so the digits of the others are left empty.
\<close>

definition v8_message :: "type_error_site \<Rightarrow> jsstring" where
  "v8_message site =
    (case site of
       CannotReadProperty v name \<Rightarrow>
         ascii ''Cannot read properties of ''
         @ (if v = JNull then ascii ''null'' else ascii ''undefined'')
         @ ascii '' (reading '' @ [0x27] @ name @ [0x27] @ ascii '')''
     | NotAFunction \<Rightarrow> ascii ''this.branches[validatedInput.branchId].push is not a function''
     | CannotConvertToPrimitive \<Rightarrow> ascii ''Cannot convert object to primitive value'')"

definition example_engine :: engine where
  "example_engine =
    \<lparr> shortest_digits = (\<lambda>q. []),
      chalk_yellow = (\<lambda>s. s), chalk_green = (\<lambda>s. s), chalk_blue = (\<lambda>s. s),
      TypeError_message = v8_message \<rparr>"

section \<open>Example inputs\<close>

definition required_fields :: "string \<Rightarrow> rat \<Rightarrow> rat \<Rightarrow> bool \<Rightarrow> (jsstring \<times> jsval) list" where
  "required_fields t n m b =
    [(ascii ''thought'', JStr (ascii t)), (ascii ''thoughtNumber'', JNum (Fin n)),
     (ascii ''totalThoughts'', JNum (Fin m)), (ascii ''nextThoughtNeeded'', JBool b)]"

definition step1 :: jsval where
  "step1 = JObj (required_fields ''step1'' 1 3 True)"

definition step2 :: jsval where
  "step2 = JObj (required_fields ''step2'' 5 3 False)"

definition missing_thought :: jsval where
  "missing_thought =
    JObj [(ascii ''thoughtNumber'', JNum (Fin 1)), (ascii ''totalThoughts'', JNum (Fin 3)),
          (ascii ''nextThoughtNeeded'', JBool True)]"

definition zero_number :: jsval where
  "zero_number = JObj (required_fields ''x'' 0 1 True)"

definition branch_step :: jsval where
  "branch_step =
    JObj (required_fields ''alt'' 2 3 True
          @ [(ascii ''branchFromThought'', JNum (Fin 1)), (ascii ''branchId'', JStr (ascii ''b1''))])"

definition empty_branch_id :: jsval where
  "empty_branch_id =
    JObj (required_fields ''alt'' 2 3 True
          @ [(ascii ''branchFromThought'', JNum (Fin 1)), (ascii ''branchId'', JStr [])])"

definition constructor_branch :: jsval where
  "constructor_branch =
    JObj (required_fields ''alt'' 2 3 True
          @ [(ascii ''branchFromThought'', JNum (Fin 1)),
             (ascii ''branchId'', JStr (ascii ''constructor''))])"

definition negative_fraction :: jsval where
  "negative_fraction = JObj (required_fields ''x'' (- 3 / 2) (- 7) False)"


definition revision_of_two :: ThoughtData where
  "revision_of_two =
    \<lparr> thought = ascii ''again'', thoughtNumber = Fin 3, totalThoughts = Fin 3,
      isRevision = JBool True, revisesThought = JNum (Fin 2),
      branchFromThought = JUndefined, branchId = JUndefined,
      needsMoreThoughts = JUndefined, nextThoughtNeeded = True \<rparr>"

text \<open>
  Two inputs with an infinite number, which a JSON payload carries as a numeral too large
  for a double, such as \<open>1e999\<close>.
\<close>

definition infinite_step :: jsval where
  "infinite_step =
    JObj [(ascii ''thought'', JStr (ascii ''on'')), (ascii ''thoughtNumber'', JNum PosInf),
          (ascii ''totalThoughts'', JNum (Fin 3)), (ascii ''nextThoughtNeeded'', JBool True)]"

definition infinite_total :: jsval where
  "infinite_total =
    JObj [(ascii ''thought'', JStr (ascii ''open'')), (ascii ''thoughtNumber'', JNum (Fin 1)),
          (ascii ''totalThoughts'', JNum PosInf), (ascii ''nextThoughtNeeded'', JBool True)]"

section \<open>Strings of ASCII text\<close>

lemma code_unit_of_char_inj: "inj (\<lambda>c::char. (of_nat (of_char c) :: 16 word))"
proof (rule injI)
  fix x y :: char
  assume h: "(of_nat (of_char x) :: 16 word) = of_nat (of_char y)"
  have small: "(of_char c :: nat) < 2 ^ LENGTH(16)" for c :: char
    by (rule less_trans [OF nat_of_char_less_256]) simp
  have u: "unat (of_nat (of_char c) :: 16 word) = of_char c" for c :: char
    using small [of c] by (simp only: unat_of_nat mod_less)
  from h have "unat (of_nat (of_char x) :: 16 word) = unat (of_nat (of_char y) :: 16 word)"
    by (rule arg_cong)
  then have "(of_char x :: nat) = of_char y"
    by (simp only: u)
  then show "x = y"
    by (simp only: of_char_eq_iff)
qed

lemma ascii_eq_iff [simp]: "ascii a = ascii b \<longleftrightarrow> a = b"
  unfolding ascii_def by (simp only: inj_map_eq_map [OF code_unit_of_char_inj])

lemma ascii_empty_iff [simp]: "ascii a = [] \<longleftrightarrow> a = []" "[] = ascii a \<longleftrightarrow> a = []"
  by (auto simp: ascii_def)

lemma length_ascii [simp]: "length (ascii a) = length a"
  by (simp add: ascii_def)

section \<open>Facts about JSON.stringify\<close>

lemma quote_key:
  "QuoteJSONString (ascii ''error'') = ascii ''\"error\"''"
  "QuoteJSONString (ascii ''status'') = ascii ''\"status\"''"
  "QuoteJSONString (ascii ''failed'') = ascii ''\"failed\"''"
  "QuoteJSONString (ascii ''thoughtNumber'') = ascii ''\"thoughtNumber\"''"
  "QuoteJSONString (ascii ''totalThoughts'') = ascii ''\"totalThoughts\"''"
  "QuoteJSONString (ascii ''nextThoughtNeeded'') = ascii ''\"nextThoughtNeeded\"''"
  "QuoteJSONString (ascii ''branches'') = ascii ''\"branches\"''"
  "QuoteJSONString (ascii ''thoughtHistoryLength'') = ascii ''\"thoughtHistoryLength\"''"
  by (simp_all add: QuoteJSONString_def quote_unit_def ascii_def)

lemma quote_messages:
  "QuoteJSONString (ascii ''Invalid thought: must be a string'')
     = ascii ''\"Invalid thought: must be a string\"''"
  "QuoteJSONString (ascii ''Invalid thoughtNumber: must be a number'')
     = ascii ''\"Invalid thoughtNumber: must be a number\"''"
  "QuoteJSONString (ascii ''Invalid totalThoughts: must be a number'')
     = ascii ''\"Invalid totalThoughts: must be a number\"''"
  "QuoteJSONString (ascii ''Invalid nextThoughtNeeded: must be a boolean'')
     = ascii ''\"Invalid nextThoughtNeeded: must be a boolean\"''"
  by (simp_all add: QuoteJSONString_def quote_unit_def ascii_def)


lemma indent_simps: "indent 0 = []" "indent (Suc 0) = [0x20, 0x20]"
  "indent (Suc (Suc 0)) = [0x20, 0x20, 0x20, 0x20]"
  by (simp_all add: indent_def numeral_eq_Suc)

lemma error_text:
  "JSON_stringify E [(ascii ''error'', JStr m), (ascii ''status'', JStr (ascii ''failed''))]
     = ascii ''{\<newline>  \"error\": '' @ QuoteJSONString m
       @ ascii '',\<newline>  \"status\": \"failed\"\<newline>}''"
  by (simp add: JSON_stringify_def bracketed_def quote_key indent_simps) (simp add: ascii_def)

lemma success_text:
  "JSON_stringify E (success_body r this)
     = ascii ''{\<newline>  \"thoughtNumber\": ''
       @ (if thoughtNumber r = NaN \<or> thoughtNumber r = PosInf \<or> thoughtNumber r = NegInf
          then ascii ''null'' else Number_toString E (thoughtNumber r))
       @ ascii '',\<newline>  \"totalThoughts\": ''
       @ (if totalThoughts r = NaN \<or> totalThoughts r = PosInf \<or> totalThoughts r = NegInf
          then ascii ''null'' else Number_toString E (totalThoughts r))
       @ ascii '',\<newline>  \"nextThoughtNeeded\": ''
       @ ascii (if nextThoughtNeeded r then ''true'' else ''false'')
       @ ascii '',\<newline>  \"branches\": ''
       @ bracketed 0x5B 0x5D 1 (map QuoteJSONString (Object_keys (branches this)))
       @ ascii '',\<newline>  \"thoughtHistoryLength\": ''
       @ Number_toString E (Fin (of_nat (length (thoughtHistory this))))
       @ ascii ''\<newline>}''"
proof -
  have e: "elements E d (map JStr ks) = map QuoteJSONString ks" for d ks
    by (induction ks) simp_all
  show ?thesis
    by (simp add: JSON_stringify_def success_body_def bracketed_def quote_key indent_simps e
        del: ascii_eq_iff)
       (simp add: ascii_def)
qed

lemma quote_units_plain:
  "\<forall>c \<in> set s. 0x20 \<le> c \<and> c \<noteq> 0x22 \<and> c \<noteq> 0x5C \<and> c < 0xD800 \<Longrightarrow> quote_units s = s"
proof (induction s rule: quote_units.induct)
  case 1
  show ?case by simp
next
  case (2 c)
  then show ?case by (auto simp: quote_unit_def)
next
  case (3 c d ds)
  then show ?case by (auto simp: quote_unit_def)
qed

section \<open>Facts about the validator\<close>

lemma get_property_field:
  "data \<noteq> JUndefined \<Longrightarrow> data \<noteq> JNull \<Longrightarrow> get_property data (ascii name) = Inr (field data name)"
  by (cases data) (simp_all add: field_def)

lemma validate_nullish:
  "data = JUndefined \<or> data = JNull \<Longrightarrow>
     validateThoughtData data = Inl (TypeError (CannotReadProperty data (ascii ''thought'')))"
  by (auto simp: validateThoughtData_def)

lemma truthy_string_iff: "truthy x \<and> typeof x = ''string'' \<longleftrightarrow> (\<exists>t. x = JStr t \<and> t \<noteq> [])"
  by (cases x) auto

lemma truthy_number_iff:
  "truthy x \<and> typeof x = ''number'' \<longleftrightarrow> (\<exists>n. x = JNum n \<and> n \<noteq> Fin 0 \<and> n \<noteq> NaN)"
  by (cases x) auto

lemma typeof_boolean_iff: "typeof x = ''boolean'' \<longleftrightarrow> (\<exists>b. x = JBool b)"
  by (cases x) auto

lemma validate_accepts:
  assumes "validateThoughtData data = Inr v"
  shows "field data ''thought'' = JStr (thought v) \<and> thought v \<noteq> []
    \<and> field data ''thoughtNumber'' = JNum (thoughtNumber v)
    \<and> thoughtNumber v \<noteq> Fin 0 \<and> thoughtNumber v \<noteq> NaN
    \<and> field data ''totalThoughts'' = JNum (totalThoughts v)
    \<and> totalThoughts v \<noteq> Fin 0 \<and> totalThoughts v \<noteq> NaN
    \<and> field data ''nextThoughtNeeded'' = JBool (nextThoughtNeeded v)
    \<and> isRevision v = field data ''isRevision''
    \<and> revisesThought v = field data ''revisesThought''
    \<and> branchFromThought v = field data ''branchFromThought''
    \<and> branchId v = field data ''branchId''
    \<and> needsMoreThoughts v = field data ''needsMoreThoughts''"
proof -
  from assms have nn: "data \<noteq> JUndefined" "data \<noteq> JNull"
    by (auto simp: validateThoughtData_def)
  note gp = get_property_field [OF nn]
  from assms have a: "truthy (field data ''thought'') \<and> typeof (field data ''thought'') = ''string''"
    and b: "truthy (field data ''thoughtNumber'') \<and> typeof (field data ''thoughtNumber'') = ''number''"
    and c: "truthy (field data ''totalThoughts'') \<and> typeof (field data ''totalThoughts'') = ''number''"
    and d: "typeof (field data ''nextThoughtNeeded'') = ''boolean''"
    by (auto simp: validateThoughtData_def gp split: if_splits)
  from a obtain t where t: "field data ''thought'' = JStr t" "t \<noteq> []"
    unfolding truthy_string_iff by blast
  from b obtain n where n: "field data ''thoughtNumber'' = JNum n" "n \<noteq> Fin 0" "n \<noteq> NaN"
    unfolding truthy_number_iff by blast
  from c obtain m where m: "field data ''totalThoughts'' = JNum m" "m \<noteq> Fin 0" "m \<noteq> NaN"
    unfolding truthy_number_iff by blast
  from d obtain f where f: "field data ''nextThoughtNeeded'' = JBool f"
    unfolding typeof_boolean_iff by blast
  from assms have "v = \<lparr> thought = t, thoughtNumber = n, totalThoughts = m,
      isRevision = field data ''isRevision'', revisesThought = field data ''revisesThought'',
      branchFromThought = field data ''branchFromThought'', branchId = field data ''branchId'',
      needsMoreThoughts = field data ''needsMoreThoughts'', nextThoughtNeeded = f \<rparr>"
    using t n m f by (simp add: validateThoughtData_def gp)
  with t n m f show ?thesis by simp
qed

lemma validate_required_fields:
  "validateThoughtData (JObj (required_fields t n m b @ rest)) =
    (if t = [] then Inl (Error (ascii ''Invalid thought: must be a string''))
     else if n = 0 then Inl (Error (ascii ''Invalid thoughtNumber: must be a number''))
     else if m = 0 then Inl (Error (ascii ''Invalid totalThoughts: must be a number''))
     else Inr \<lparr> thought = ascii t, thoughtNumber = Fin n, totalThoughts = Fin m,
        isRevision = field (JObj rest) ''isRevision'',
        revisesThought = field (JObj rest) ''revisesThought'',
        branchFromThought = field (JObj rest) ''branchFromThought'',
        branchId = field (JObj rest) ''branchId'',
        needsMoreThoughts = field (JObj rest) ''needsMoreThoughts'',
        nextThoughtNeeded = b \<rparr>)"
  by (simp add: validateThoughtData_def required_fields_def field_def)

lemma validate_step1: "validateThoughtData step1 = Inr \<lparr> thought = ascii ''step1'', thoughtNumber = Fin 1,
       totalThoughts = Fin 3, isRevision = JUndefined, revisesThought = JUndefined,
       branchFromThought = JUndefined, branchId = JUndefined, needsMoreThoughts = JUndefined,
       nextThoughtNeeded = True \<rparr>"
  by (simp add: validateThoughtData_def step1_def required_fields_def field_def)


lemma validate_missing_thought:
  "validateThoughtData missing_thought = Inl (Error (ascii ''Invalid thought: must be a string''))"
  by (simp add: validateThoughtData_def missing_thought_def)

lemma validate_branch_step:
  "validateThoughtData branch_step = Inr \<lparr> thought = ascii ''alt'', thoughtNumber = Fin 2,
       totalThoughts = Fin 3, isRevision = JUndefined, revisesThought = JUndefined,
       branchFromThought = JNum (Fin 1), branchId = JStr (ascii ''b1''),
       needsMoreThoughts = JUndefined, nextThoughtNeeded = True \<rparr>"
  by (simp add: branch_step_def validate_required_fields field_def)

lemma validate_empty_branch_id:
  "validateThoughtData empty_branch_id = Inr \<lparr> thought = ascii ''alt'', thoughtNumber = Fin 2,
       totalThoughts = Fin 3, isRevision = JUndefined, revisesThought = JUndefined,
       branchFromThought = JNum (Fin 1), branchId = JStr [],
       needsMoreThoughts = JUndefined, nextThoughtNeeded = True \<rparr>"
  by (simp add: empty_branch_id_def validate_required_fields field_def)

lemma validate_constructor_branch:
  "validateThoughtData constructor_branch = Inr \<lparr> thought = ascii ''alt'', thoughtNumber = Fin 2,
       totalThoughts = Fin 3, isRevision = JUndefined, revisesThought = JUndefined,
       branchFromThought = JNum (Fin 1), branchId = JStr (ascii ''constructor''),
       needsMoreThoughts = JUndefined, nextThoughtNeeded = True \<rparr>"
  by (simp add: constructor_branch_def validate_required_fields field_def)

lemma validate_infinite_step:
  "validateThoughtData infinite_step = Inr \<lparr> thought = ascii ''on'', thoughtNumber = PosInf,
       totalThoughts = Fin 3, isRevision = JUndefined, revisesThought = JUndefined,
       branchFromThought = JUndefined, branchId = JUndefined, needsMoreThoughts = JUndefined,
       nextThoughtNeeded = True \<rparr>"
  by (simp add: validateThoughtData_def infinite_step_def field_def)

lemma validate_infinite_total:
  "validateThoughtData infinite_total = Inr \<lparr> thought = ascii ''open'', thoughtNumber = Fin 1,
       totalThoughts = PosInf, isRevision = JUndefined, revisesThought = JUndefined,
       branchFromThought = JUndefined, branchId = JUndefined, needsMoreThoughts = JUndefined,
       nextThoughtNeeded = True \<rparr>"
  by (simp add: validateThoughtData_def infinite_total_def field_def)

lemma non_empty_string_iff: "non_empty_string x \<longleftrightarrow> truthy x \<and> typeof x = ''string''"
  by (cases x) (simp_all add: non_empty_string_def)

lemma non_zero_number_iff: "non_zero_number x \<longleftrightarrow> truthy x \<and> typeof x = ''number''"
  by (cases x) (simp_all add: non_zero_number_def)

lemma is_boolean_iff: "is_boolean x \<longleftrightarrow> typeof x = ''boolean''"
  by (cases x) (simp_all add: is_boolean_def)

lemma validate_by_shape:
  "validateThoughtData data =
    (if data = JUndefined \<or> data = JNull then
       Inl (TypeError (CannotReadProperty data (ascii ''thought'')))
     else if \<not> non_empty_string (field data ''thought'') then
       Inl (Error (ascii ''Invalid thought: must be a string''))
     else if \<not> non_zero_number (field data ''thoughtNumber'') then
       Inl (Error (ascii ''Invalid thoughtNumber: must be a number''))
     else if \<not> non_zero_number (field data ''totalThoughts'') then
       Inl (Error (ascii ''Invalid totalThoughts: must be a number''))
     else if \<not> is_boolean (field data ''nextThoughtNeeded'') then
       Inl (Error (ascii ''Invalid nextThoughtNeeded: must be a boolean''))
     else
       Inr \<lparr> thought = as_string (field data ''thought''),
             thoughtNumber = as_number (field data ''thoughtNumber''),
             totalThoughts = as_number (field data ''totalThoughts''),
             isRevision = field data ''isRevision'',
             revisesThought = field data ''revisesThought'',
             branchFromThought = field data ''branchFromThought'',
             branchId = field data ''branchId'',
             needsMoreThoughts = field data ''needsMoreThoughts'',
             nextThoughtNeeded = as_boolean (field data ''nextThoughtNeeded'') \<rparr>)"
proof (cases "data = JUndefined \<or> data = JNull")
  case True
  then show ?thesis by (simp add: validate_nullish)
next
  case False
  then have "get_property data (ascii ''thought'') = Inr (field data ''thought'')"
    by (simp add: get_property_field)
  with False show ?thesis
    by (simp add: validateThoughtData_def non_empty_string_iff non_zero_number_iff is_boolean_iff)
qed

section \<open>Facts about printing numbers and about formatThought\<close>

lemma Number_toString_nat:
  "k < 10 ^ 21 \<Longrightarrow> Number_toString E (Fin (of_nat k)) = decimal k"
proof -
  assume k: "k < 10 ^ 21"
  have "quotient_of (of_nat k) = (int k, 1)"
    using quotient_of_int [of "int k"] by simp
  moreover have "int k < 10 ^ 21"
    using k by (metis of_nat_less_iff of_nat_numeral of_nat_power)
  ultimately show ?thesis
    by (simp add: Number_toString_def)
qed

lemma Number_toString_small:
  "Number_toString E (Fin 1) = ascii ''1''" "Number_toString E (Fin 2) = ascii ''2''"
  "Number_toString E (Fin 3) = ascii ''3''" "Number_toString E (Fin 5) = ascii ''5''"
  using Number_toString_nat [of 1 E] Number_toString_nat [of 2 E] Number_toString_nat [of 3 E]
    Number_toString_nat [of 5 E]
  by (simp_all add: ascii_def)


lemma engine_simps:
  "chalk_yellow example_engine s = s" "chalk_green example_engine s = s"
  "chalk_blue example_engine s = s" "TypeError_message example_engine = v8_message"
  by (simp_all add: example_engine_def)


section \<open>The steps of processThought\<close>

lemma register_branch_frame:
  "register_branch E v this = Inr this' \<Longrightarrow>
     thoughtHistory this' = thoughtHistory this \<and> logged this' = logged this"
  by (auto simp: register_branch_def Let_def split: if_splits sum.splits property.splits)

lemma register_branch_skip:
  "\<not> (truthy (branchFromThought v) \<and> truthy (branchId v)) \<Longrightarrow> register_branch E v this = Inr this"
  unfolding register_branch_def by (simp only: if_False)

lemma processThought_invalid:
  "validateThoughtData input = Inl e \<Longrightarrow> processThought E input this = (error_response E e, this)"
  by (simp add: processThought_def)

lemma processThought_valid:
  assumes "validateThoughtData input = Inr v"
  shows "processThought E input this =
    (case register_branch E (self_correct v)
            (this\<lparr>thoughtHistory := thoughtHistory this @ [self_correct v]\<rparr>) of
       Inl e \<Rightarrow> (error_response E e, this\<lparr>thoughtHistory := thoughtHistory this @ [self_correct v]\<rparr>)
     | Inr this2 \<Rightarrow>
        (case formatThought E (self_correct v) of
           Inl e \<Rightarrow> (error_response E e, this2)
         | Inr formattedThought \<Rightarrow>
            success_response E (self_correct v) (this2\<lparr>logged := logged this2 @ [formattedThought]\<rparr>)))"
  using assms by (simp add: processThought_def Let_def)

lemma processThought_history:
  assumes "validateThoughtData input = Inr v"
  shows "thoughtHistory (snd (processThought E input this)) = thoughtHistory this @ [self_correct v]"
  using assms
  by (auto simp: processThought_valid success_response_def
      split: sum.splits dest: register_branch_frame)

lemma processThought_success:
  assumes "isError (fst (processThought E input this)) = None"
  shows "\<exists>v. validateThoughtData input = Inr v
    \<and> fst (processThought E input this)
        = fst (success_response E (self_correct v) (snd (processThought E input this)))"
proof (cases "validateThoughtData input")
  case (Inl e)
  with assms show ?thesis
    by (simp add: processThought_def error_response_def)
next
  case (Inr v)
  with assms show ?thesis
    by (auto simp: processThought_valid success_response_def error_response_def split: sum.splits)
qed

lemma self_correct_fields [simp]:
  "thought (self_correct v) = thought v"
  "thoughtNumber (self_correct v) = thoughtNumber v"
  "nextThoughtNeeded (self_correct v) = nextThoughtNeeded v"
  "isRevision (self_correct v) = isRevision v"
  "revisesThought (self_correct v) = revisesThought v"
  "branchFromThought (self_correct v) = branchFromThought v"
  "branchId (self_correct v) = branchId v"
  "needsMoreThoughts (self_correct v) = needsMoreThoughts v"
  by (simp_all add: self_correct_def)




lemma context_plain:
  "\<not> truthy (isRevision v) \<Longrightarrow> \<not> truthy (branchFromThought v) \<Longrightarrow> context_of E v = Inr []"
  by (simp add: context_of_def)

lemma formatThought_plain:
  assumes "\<not> truthy (isRevision v)" "\<not> truthy (branchFromThought v)"
  shows "\<exists>formattedThought. formatThought E v = Inr formattedThought"
  using assms by (simp add: formatThought_def header_of_def context_plain Let_def)

lemma processThought_plain:
  assumes "validateThoughtData input = Inr v"
    and "\<not> truthy (isRevision v)" "\<not> truthy (branchFromThought v)"
  shows "\<exists>formattedThought. processThought E input this =
      success_response E (self_correct v)
        (this\<lparr>thoughtHistory := thoughtHistory this @ [self_correct v],
               logged := logged this @ [formattedThought]\<rparr>)"
proof -
  from assms(2,3) obtain formattedThought
    where f: "formatThought E (self_correct v) = Inr formattedThought"
    using formatThought_plain [of "self_correct v" E] by auto
  have r: "register_branch E (self_correct v) s = Inr s" for s
    using assms(3) by (simp add: register_branch_skip)
  show ?thesis
    by (rule exI [of _ formattedThought]) (simp add: processThought_valid [OF assms(1)] r f)
qed

lemma processThought_plain_response:
  assumes "validateThoughtData input = Inr v"
    and "\<not> truthy (isRevision v)" "\<not> truthy (branchFromThought v)"
  shows "fst (processThought E input this) =
      fst (success_response E (self_correct v)
             (this\<lparr>thoughtHistory := thoughtHistory this @ [self_correct v]\<rparr>))"
    and "branches (snd (processThought E input this)) = branches this"
  using processThought_plain [OF assms, of E this]
  by (auto simp: success_response_def success_body_def)

lemma Object_keys_empty [simp]: "Object_keys [] = []"
  by (simp add: Object_keys_def)

lemma history_step: "\<exists>ys. thoughtHistory (snd (processThought E input this)) = thoughtHistory this @ ys"
proof (cases "validateThoughtData input")
  case (Inl e)
  then show ?thesis by (simp add: processThought_invalid)
next
  case (Inr v)
  then show ?thesis by (simp add: processThought_history)
qed

lemma history_run: "\<exists>ys. thoughtHistory (run E inputs this) = thoughtHistory this @ ys"
proof (induction inputs arbitrary: this)
  case Nil
  show ?case by simp
next
  case (Cons input inputs)
  obtain ys where ys: "thoughtHistory (snd (processThought E input this)) = thoughtHistory this @ ys"
    using history_step by blast
  obtain zs where "thoughtHistory (run E inputs (snd (processThought E input this)))
      = thoughtHistory (snd (processThought E input this)) @ zs"
    using Cons.IH by blast
  with ys show ?case by simp
qed

section \<open>Facts about the branch index\<close>

lemma map_of_push_to:
  "map_of (push_to key r bs) k
     = (if k = key then map_option (\<lambda>records. records @ [r]) (map_of bs k) else map_of bs k)"
  by (induction bs) (auto simp: push_to_def)

lemma register_branch_cases:
  assumes "register_branch E r this = Inr this'"
  shows "this' = this
    \<or> (\<exists>key. ToString E (branchId r) = Inr key \<and> truthy (branchFromThought r) \<and> truthy (branchId r)
          \<and> this' = this\<lparr>branches := registered key r (branches this)\<rparr>)"
  using assms
  by (auto simp: register_branch_def registered_def branches_get_def Let_def
      split: if_splits sum.splits option.splits property.splits)

lemma register_branch_appends:
  assumes "truthy (branchFromThought r)" "truthy (branchId r)"
    and "ToString E (branchId r) = Inr key" and "key \<notin> set Object_prototype_names"
  shows "register_branch E r this = Inr (this\<lparr>branches := registered key r (branches this)\<rparr>)"
  using assms
  by (auto simp: register_branch_def registered_def branches_get_def Let_def map_add_def
      split: option.splits)

lemma map_of_registered:
  "map_of (registered key r bs) k
     = (if k = key then Some ((case map_of bs key of None \<Rightarrow> [] | Some records \<Rightarrow> records) @ [r])
        else map_of bs k)"
  by (auto simp: registered_def map_of_push_to map_add_def split: option.splits)

lemma set_push_to:
  "(k, records) \<in> set (push_to key r bs) \<Longrightarrow>
     \<exists>old. (k, old) \<in> set bs \<and> records = (if k = key then old @ [r] else old)"
  by (auto simp: push_to_def split: if_splits)

lemma set_registered:
  assumes "(k, records) \<in> set (registered key r bs)"
  shows "(k, records) \<in> set bs \<or> (\<exists>old. (k, old) \<in> set bs \<and> records = old @ [r]) \<or> records = [r]"
proof -
  from assms obtain old
    where old: "(k, old) \<in> set (case map_of bs key of None \<Rightarrow> bs @ [(key, [])] | Some _ \<Rightarrow> bs)"
      and r: "records = (if k = key then old @ [r] else old)"
    unfolding registered_def by (blast dest: set_push_to)
  from old have "(k, old) \<in> set bs \<or> (k = key \<and> old = [])"
    by (auto split: option.splits)
  with r show ?thesis by auto
qed

lemma set_Object_keys: "set (Object_keys obj) = fst ` set obj"
  by (auto simp: Object_keys_def Let_def)

lemma processThought_valid_state:
  assumes "validateThoughtData input = Inr v"
  shows "thoughtHistory (snd (processThought E input this)) = thoughtHistory this @ [self_correct v]
    \<and> (branches (snd (processThought E input this)) = branches this
        \<or> (\<exists>key. ToString E (branchId v) = Inr key \<and> truthy (branchFromThought v) \<and> truthy (branchId v)
              \<and> branches (snd (processThought E input this))
                   = registered key (self_correct v) (branches this)))"
proof -
  let ?r = "self_correct v"
  let ?this1 = "this\<lparr>thoughtHistory := thoughtHistory this @ [?r]\<rparr>"
  show ?thesis
  proof (cases "register_branch E ?r ?this1")
    case (Inl e)
    then show ?thesis
      by (simp add: processThought_valid [OF assms])
  next
    case (Inr this2)
    from register_branch_cases [OF Inr]
    have b: "branches this2 = branches this
      \<or> (\<exists>key. ToString E (branchId v) = Inr key \<and> truthy (branchFromThought v) \<and> truthy (branchId v)
            \<and> branches this2 = registered key ?r (branches this))"
      by auto
    from register_branch_frame [OF Inr] have h: "thoughtHistory this2 = thoughtHistory this @ [?r]"
      by simp
    have "branches (snd (processThought E input this)) = branches this2"
      by (simp add: processThought_valid [OF assms] Inr success_response_def split: sum.splits)
    with b h show ?thesis
      by (simp add: processThought_history [OF assms])
  qed
qed

lemma branches_in_history_step:
  assumes inv: "\<forall>(k, records) \<in> set (branches this). set records \<subseteq> set (thoughtHistory this)"
  shows "\<forall>(k, records) \<in> set (branches (snd (processThought E input this))).
           set records \<subseteq> set (thoughtHistory (snd (processThought E input this)))"
proof (cases "validateThoughtData input")
  case (Inl e)
  with inv show ?thesis by (simp add: processThought_invalid)
next
  case (Inr v)
  note st = processThought_valid_state [OF Inr, of E this]
  show ?thesis
  proof (clarify)
    fix k records x
    assume kr: "(k, records) \<in> set (branches (snd (processThought E input this)))"
      and x: "x \<in> set records"
    from st have h: "thoughtHistory (snd (processThought E input this)) = thoughtHistory this @ [self_correct v]"
      by blast
    from st kr have "(k, records) \<in> set (branches this)
        \<or> (\<exists>key. (k, records) \<in> set (registered key (self_correct v) (branches this)))"
      by auto
    then have "(k, records) \<in> set (branches this)
        \<or> (\<exists>old. (k, old) \<in> set (branches this) \<and> records = old @ [self_correct v])
        \<or> records = [self_correct v]"
      by (blast dest: set_registered)
    with inv x have "x \<in> set (thoughtHistory this) \<or> x = self_correct v"
      by fastforce
    with h show "x \<in> set (thoughtHistory (snd (processThought E input this)))"
      by auto
  qed
qed

lemma branches_in_history_run:
  assumes "\<forall>(k, records) \<in> set (branches this). set records \<subseteq> set (thoughtHistory this)"
  shows "\<forall>(k, records) \<in> set (branches (run E inputs this)).
           set records \<subseteq> set (thoughtHistory (run E inputs this))"
  using assms
proof (induction inputs arbitrary: this)
  case Nil
  then show ?case by simp
next
  case (Cons input inputs)
  from Cons.IH [OF branches_in_history_step [OF Cons.prems]] show ?case
    by simp
qed

lemma formatThought_primitive:
  assumes "\<And>kvs. revisesThought v \<noteq> JObj kvs" "\<And>xs. revisesThought v \<noteq> JArr xs"
    and "\<And>kvs. branchFromThought v \<noteq> JObj kvs" "\<And>xs. branchFromThought v \<noteq> JArr xs"
    and "\<And>kvs. branchId v \<noteq> JObj kvs" "\<And>xs. branchId v \<noteq> JArr xs"
  shows "\<exists>formattedThought. formatThought E v = Inr formattedThought"
proof -
  have p: "\<exists>s. ToString E x = Inr s" if "\<And>kvs. x \<noteq> JObj kvs" "\<And>xs. x \<noteq> JArr xs" for x
    using that by (cases x) auto
  from p [OF assms(1,2)] p [OF assms(3,4)] p [OF assms(5,6)]
  have "\<exists>c. context_of E v = Inr c"
    by (auto simp: context_of_def)
  then show ?thesis
    by (auto simp: formatThought_def header_of_def Let_def)
qed

lemma processThought_branches_registered:
  assumes "validateThoughtData input = Inr v"
    and "truthy (branchFromThought v)" "truthy (branchId v)"
    and "ToString E (branchId v) = Inr key" and "key \<notin> set Object_prototype_names"
  shows "branches (snd (processThought E input this)) = registered key (self_correct v) (branches this)"
proof -
  have "register_branch E (self_correct v) s = Inr (s\<lparr>branches := registered key (self_correct v) (branches s)\<rparr>)"
    for s
    using assms(2-5) by (intro register_branch_appends) simp_all
  then show ?thesis
    by (simp add: processThought_valid [OF assms(1)] success_response_def split: sum.splits)
qed

lemma processThought_branches_skipped:
  assumes "validateThoughtData input = Inr v"
    and "\<not> (truthy (branchFromThought v) \<and> truthy (branchId v))"
  shows "branches (snd (processThought E input this)) = branches this"
proof -
  have "register_branch E (self_correct v) s = Inr s" for s
    using assms(2) by (intro register_branch_skip) simp
  then show ?thesis
    by (simp add: processThought_valid [OF assms(1)] success_response_def split: sum.splits)
qed

lemma processThought_returns_success:
  assumes "validateThoughtData input = Inr v"
    and "register_branch E (self_correct v) (this\<lparr>thoughtHistory := thoughtHistory this @ [self_correct v]\<rparr>)
           = Inr this2"
    and "formatThought E (self_correct v) = Inr formattedThought"
  shows "isError (fst (processThought E input this)) = None"
  using assms by (simp add: processThought_valid success_response_def)

lemma constructor_inherited: "ascii ''constructor'' \<in> set Object_prototype_names"
  by (simp add: Object_prototype_names_def)

lemma b1_not_inherited: "ascii ''b1'' \<notin> set Object_prototype_names"
  by (simp add: Object_prototype_names_def)

lemma new_server_simps:
  "thoughtHistory new_server = []" "branches new_server = []" "logged new_server = []"
  by (simp_all add: new_server_def)

lemma Object_keys_b1: "Object_keys [(ascii ''b1'', x)] = [ascii ''b1'']"
  by (simp add: Object_keys_def is_array_index_def ascii_def)

lemma processThought_branch_step:
  "isError (fst (processThought E branch_step new_server)) = None"
  "thoughtHistory (snd (processThought E branch_step new_server)) =
     [\<lparr> thought = ascii ''alt'', thoughtNumber = Fin 2,
       totalThoughts = Fin 3, isRevision = JUndefined, revisesThought = JUndefined,
       branchFromThought = JNum (Fin 1), branchId = JStr (ascii ''b1''),
       needsMoreThoughts = JUndefined, nextThoughtNeeded = True \<rparr>]"
  "branches (snd (processThought E branch_step new_server)) =
     [(ascii ''b1'', [\<lparr> thought = ascii ''alt'', thoughtNumber = Fin 2,
       totalThoughts = Fin 3, isRevision = JUndefined, revisesThought = JUndefined,
       branchFromThought = JNum (Fin 1), branchId = JStr (ascii ''b1''),
       needsMoreThoughts = JUndefined, nextThoughtNeeded = True \<rparr>])]"
proof -
  let ?v = "\<lparr> thought = ascii ''alt'', thoughtNumber = Fin 2,
       totalThoughts = Fin 3, isRevision = JUndefined, revisesThought = JUndefined,
       branchFromThought = JNum (Fin 1), branchId = JStr (ascii ''b1''),
       needsMoreThoughts = JUndefined, nextThoughtNeeded = True \<rparr>"
  note v = validate_branch_step
  have sc: "self_correct ?v = ?v"
    by (simp add: self_correct_def)
  have r: "register_branch E ?v s = Inr (s\<lparr>branches := registered (ascii ''b1'') ?v (branches s)\<rparr>)" for s
    by (rule register_branch_appends) (simp_all add: b1_not_inherited)
  obtain formattedThought where f: "formatThought E ?v = Inr formattedThought"
    using formatThought_primitive [of ?v E] by auto
  show "isError (fst (processThought E branch_step new_server)) = None"
    by (rule processThought_returns_success [OF v]) (simp_all only: sc r f)
  show "thoughtHistory (snd (processThought E branch_step new_server)) = [?v]"
    by (simp add: processThought_history [OF v] sc new_server_def)
  show "branches (snd (processThought E branch_step new_server)) = [(ascii ''b1'', [?v])]"
    by (subst processThought_branches_registered [OF v, of E "ascii ''b1''"])
       (simp_all add: b1_not_inherited sc new_server_def registered_def push_to_def)
qed

text \<open>
  A key that \<open>Object.prototype\<close> defines and \<open>branches\<close> does not own is found,
  truthy, by the test of line 113; no array is created, line 116 calls a \<open>push\<close> that
  does not exist, and the \<open>TypeError\<close> is caught: the call answers with the error
  envelope although the input was valid and its record is already in the history.
\<close>

lemma inherited_key_throws:
  assumes "validateThoughtData input = Inr v"
    and "truthy (branchFromThought v)" "truthy (branchId v)"
    and "ToString E (branchId v) = Inr key" and "key \<in> set Object_prototype_names"
    and "map_of (branches this) key = None"
  shows "processThought E input this =
     (error_response E (TypeError NotAFunction),
      this\<lparr>thoughtHistory := thoughtHistory this @ [self_correct v]\<rparr>)"
proof -
  have "register_branch E (self_correct v) (this\<lparr>thoughtHistory := thoughtHistory this @ [self_correct v]\<rparr>)
      = Inl (TypeError NotAFunction)"
    using assms(2-6) by (simp add: register_branch_def branches_get_def Let_def)
  then show ?thesis
    by (simp add: processThought_valid [OF assms(1)])
qed

lemma constructor_branch_throws:
  "processThought E constructor_branch new_server =
     (error_response E (TypeError NotAFunction),
      \<lparr> thoughtHistory = [\<lparr> thought = ascii ''alt'', thoughtNumber = Fin 2,
           totalThoughts = Fin 3, isRevision = JUndefined, revisesThought = JUndefined,
           branchFromThought = JNum (Fin 1), branchId = JStr (ascii ''constructor''),
           needsMoreThoughts = JUndefined, nextThoughtNeeded = True \<rparr>],
        branches = [], logged = [] \<rparr>)"
  by (subst inherited_key_throws [OF validate_constructor_branch, of E "ascii ''constructor''"])
     (simp_all add: constructor_inherited new_server_def self_correct_def)

section \<open>What the validator accepts\<close>

text \<open>
  C2, as the code has it: on \<open>undefined\<close> and \<open>null\<close> the first property read throws a
  \<open>TypeError\<close>. On every other input the validator succeeds if and only if \<open>thought\<close> is
  a non-empty string, \<open>thoughtNumber\<close> and \<open>totalThoughts\<close> are numbers other than zero
  and \<open>NaN\<close>, and \<open>nextThoughtNeeded\<close> is a boolean; when it fails, the message names the
  first of these four fields, in this order, that is not so. Nothing else is tested:
  negative, fractional and infinite numbers pass, and the five optional fields are
  copied as they are.
\<close>

theorem validator_contract:
  "validateThoughtData data =
    (if data = JUndefined \<or> data = JNull then
       Inl (TypeError (CannotReadProperty data (ascii ''thought'')))
     else if \<not> non_empty_string (field data ''thought'') then
       Inl (Error (ascii ''Invalid thought: must be a string''))
     else if \<not> non_zero_number (field data ''thoughtNumber'') then
       Inl (Error (ascii ''Invalid thoughtNumber: must be a number''))
     else if \<not> non_zero_number (field data ''totalThoughts'') then
       Inl (Error (ascii ''Invalid totalThoughts: must be a number''))
     else if \<not> is_boolean (field data ''nextThoughtNeeded'') then
       Inl (Error (ascii ''Invalid nextThoughtNeeded: must be a boolean''))
     else
       Inr \<lparr> thought = as_string (field data ''thought''),
             thoughtNumber = as_number (field data ''thoughtNumber''),
             totalThoughts = as_number (field data ''totalThoughts''),
             isRevision = field data ''isRevision'',
             revisesThought = field data ''revisesThought'',
             branchFromThought = field data ''branchFromThought'',
             branchId = field data ''branchId'',
             needsMoreThoughts = field data ''needsMoreThoughts'',
             nextThoughtNeeded = as_boolean (field data ''nextThoughtNeeded'') \<rparr>)
   \<and> ((\<exists>v. validateThoughtData data = Inr v) \<longleftrightarrow>
        non_empty_string (field data ''thought'') \<and> non_zero_number (field data ''thoughtNumber'')
        \<and> non_zero_number (field data ''totalThoughts'') \<and> is_boolean (field data ''nextThoughtNeeded''))"
proof -
  have nullish: "\<not> non_empty_string (field data ''thought'')" if "data = JUndefined \<or> data = JNull"
    using that by (auto simp: field_def non_empty_string_def)
  show ?thesis
    by (rule conjI, rule validate_by_shape, subst validate_by_shape) (use nullish in auto)
qed

theorem validator_contract_witness:
  "non_empty_string (field negative_fraction ''thought'')
   \<and> non_zero_number (field negative_fraction ''thoughtNumber'')
   \<and> non_zero_number (field negative_fraction ''totalThoughts'')
   \<and> is_boolean (field negative_fraction ''nextThoughtNeeded'')
   \<and> validateThoughtData negative_fraction =
       Inr \<lparr> thought = ascii ''x'', thoughtNumber = Fin (- 3 / 2), totalThoughts = Fin (- 7),
             isRevision = JUndefined, revisesThought = JUndefined, branchFromThought = JUndefined,
             branchId = JUndefined, needsMoreThoughts = JUndefined, nextThoughtNeeded = False \<rparr>
   \<and> validateThoughtData missing_thought = Inl (Error (ascii ''Invalid thought: must be a string''))
   \<and> validateThoughtData JNull = Inl (TypeError (CannotReadProperty JNull (ascii ''thought'')))"
proof -
  have f: "field negative_fraction ''thought'' = JStr (ascii ''x'')"
    "field negative_fraction ''thoughtNumber'' = JNum (Fin (- 3 / 2))"
    "field negative_fraction ''totalThoughts'' = JNum (Fin (- 7))"
    "field negative_fraction ''nextThoughtNeeded'' = JBool False"
    "field negative_fraction ''isRevision'' = JUndefined"
    "field negative_fraction ''revisesThought'' = JUndefined"
    "field negative_fraction ''branchFromThought'' = JUndefined"
    "field negative_fraction ''branchId'' = JUndefined"
    "field negative_fraction ''needsMoreThoughts'' = JUndefined"
    by (simp_all add: negative_fraction_def required_fields_def field_def)
  have g: "field missing_thought ''thought'' = JUndefined"
    by (simp add: missing_thought_def field_def)
  have n: "negative_fraction \<noteq> JUndefined" "negative_fraction \<noteq> JNull"
    "missing_thought \<noteq> JUndefined" "missing_thought \<noteq> JNull"
    by (simp_all add: negative_fraction_def missing_thought_def)
  from validator_contract [of negative_fraction] validator_contract [of missing_thought]
    validator_contract [of JNull]
  show ?thesis
    by (simp add: f g n non_empty_string_def non_zero_number_def is_boolean_def)
qed

theorem validator_contract_counterexample:
  "typeof (field zero_number ''thought'') = ''string''
   \<and> typeof (field zero_number ''thoughtNumber'') = ''number''
   \<and> typeof (field zero_number ''totalThoughts'') = ''number''
   \<and> typeof (field zero_number ''nextThoughtNeeded'') = ''boolean''
   \<and> field zero_number ''thoughtNumber'' = JNum (Fin 0)
   \<and> validateThoughtData zero_number = Inl (Error (ascii ''Invalid thoughtNumber: must be a number''))"
  by (simp add: zero_number_def required_fields_def validateThoughtData_def field_def)

section \<open>The framed text\<close>




section \<open>The self-correction of totalThoughts\<close>



theorem self_correction_counterexample:
  "validateThoughtData infinite_step = Inr \<lparr> thought = ascii ''on'', thoughtNumber = PosInf,
       totalThoughts = Fin 3, isRevision = JUndefined, revisesThought = JUndefined,
       branchFromThought = JUndefined, branchId = JUndefined, needsMoreThoughts = JUndefined,
       nextThoughtNeeded = True \<rparr>
   \<and> field infinite_step ''thoughtNumber'' = JNum PosInf
   \<and> field infinite_step ''totalThoughts'' = JNum (Fin 3)
   \<and> thoughtHistory (snd (processThought example_engine infinite_step new_server)) =
       [\<lparr> thought = ascii ''on'', thoughtNumber = PosInf,
          totalThoughts = PosInf, isRevision = JUndefined, revisesThought = JUndefined,
          branchFromThought = JUndefined, branchId = JUndefined, needsMoreThoughts = JUndefined,
          nextThoughtNeeded = True \<rparr>]
   \<and> fst (processThought example_engine infinite_step new_server) =
       \<lparr> content = [\<lparr> type = ascii ''text'',
            text = ascii ''{\<newline>  \"thoughtNumber\": null,\<newline>  \"totalThoughts\": null,\<newline>  \"nextThoughtNeeded\": true,\<newline>  \"branches\": [],\<newline>  \"thoughtHistoryLength\": 1\<newline>}'' \<rparr>],
          isError = None \<rparr>"
proof -
  note v = validate_infinite_step
  have f: "field infinite_step ''thoughtNumber'' = JNum PosInf"
    "field infinite_step ''totalThoughts'' = JNum (Fin 3)"
    by (simp_all add: infinite_step_def field_def)
  have h: "thoughtHistory (snd (processThought example_engine infinite_step new_server)) =
       [\<lparr> thought = ascii ''on'', thoughtNumber = PosInf,
          totalThoughts = PosInf, isRevision = JUndefined, revisesThought = JUndefined,
          branchFromThought = JUndefined, branchId = JUndefined, needsMoreThoughts = JUndefined,
          nextThoughtNeeded = True \<rparr>]"
    by (simp add: processThought_history [OF v] new_server_simps self_correct_def)
  have e: "fst (processThought example_engine infinite_step new_server) =
       \<lparr> content = [\<lparr> type = ascii ''text'',
            text = ascii ''{\<newline>  \"thoughtNumber\": null,\<newline>  \"totalThoughts\": null,\<newline>  \"nextThoughtNeeded\": true,\<newline>  \"branches\": [],\<newline>  \"thoughtHistoryLength\": 1\<newline>}'' \<rparr>],
          isError = None \<rparr>"
    by (subst processThought_plain_response(1) [OF v])
       (simp_all add: success_response_def success_text self_correct_def new_server_simps
          bracketed_def Number_toString_small, simp add: ascii_def)
  from v f h e show ?thesis by blast
qed

section \<open>The branch index\<close>

text \<open>
  C3, as the code has it: a valid input whose \<open>branchFromThought\<close> and \<open>branchId\<close> are
  both truthy, and whose \<open>branchId\<close> converts to a key that \<open>Object.prototype\<close> does not
  define, has its record appended at the end of \<open>branches[key]\<close>, a sequence that is
  created empty when the key is new, and no other branch sequence changes; and in
  every state that a session reaches from the empty one, each record of each branch
  sequence is a record of the history.
\<close>

theorem branch_registration:
  "(validateThoughtData input = Inr v
      \<and> truthy (field input ''branchFromThought'') \<and> truthy (field input ''branchId'')
      \<and> ToString E (field input ''branchId'') = Inr key \<and> key \<notin> set Object_prototype_names
    \<longrightarrow> (\<exists>r. thoughtHistory (snd (processThought E input this)) = thoughtHistory this @ [r]
          \<and> map_of (branches (snd (processThought E input this))) key
              = Some ((case map_of (branches this) key of None \<Rightarrow> [] | Some records \<Rightarrow> records) @ [r])
          \<and> key \<in> set (Object_keys (branches (snd (processThought E input this))))
          \<and> (\<forall>k. k \<noteq> key \<longrightarrow>
                map_of (branches (snd (processThought E input this))) k = map_of (branches this) k)))
   \<and> (\<forall>(k, records) \<in> set (branches (run E inputs new_server)).
          set records \<subseteq> set (thoughtHistory (run E inputs new_server)))"
proof (intro conjI impI)
  assume a: "validateThoughtData input = Inr v
      \<and> truthy (field input ''branchFromThought'') \<and> truthy (field input ''branchId'')
      \<and> ToString E (field input ''branchId'') = Inr key \<and> key \<notin> set Object_prototype_names"
  then have v: "validateThoughtData input = Inr v" by blast
  from validate_accepts [OF v] have f: "branchFromThought v = field input ''branchFromThought''"
    "branchId v = field input ''branchId''"
    by simp_all
  from a f have b: "branches (snd (processThought E input this))
      = registered key (self_correct v) (branches this)"
    by (intro processThought_branches_registered) simp_all
  have k: "key \<in> fst ` set (registered key (self_correct v) (branches this))"
    using map_of_registered [of key "self_correct v" "branches this" key]
    by (metis (no_types, lifting) domI dom_map_of_conv_image_fst)
  show "\<exists>r. thoughtHistory (snd (processThought E input this)) = thoughtHistory this @ [r]
          \<and> map_of (branches (snd (processThought E input this))) key
              = Some ((case map_of (branches this) key of None \<Rightarrow> [] | Some records \<Rightarrow> records) @ [r])
          \<and> key \<in> set (Object_keys (branches (snd (processThought E input this))))
          \<and> (\<forall>k. k \<noteq> key \<longrightarrow>
                map_of (branches (snd (processThought E input this))) k = map_of (branches this) k)"
    by (rule exI [of _ "self_correct v"])
       (simp add: processThought_history [OF v] b map_of_registered set_Object_keys k)
next
  show "\<forall>(k, records) \<in> set (branches (run E inputs new_server)).
          set records \<subseteq> set (thoughtHistory (run E inputs new_server))"
    by (rule branches_in_history_run) (simp add: new_server_def)
qed


theorem branch_registration_witness:
  "validateThoughtData branch_step = Inr \<lparr> thought = ascii ''alt'', thoughtNumber = Fin 2,
       totalThoughts = Fin 3, isRevision = JUndefined, revisesThought = JUndefined,
       branchFromThought = JNum (Fin 1), branchId = JStr (ascii ''b1''),
       needsMoreThoughts = JUndefined, nextThoughtNeeded = True \<rparr>
   \<and> truthy (field branch_step ''branchFromThought'') \<and> truthy (field branch_step ''branchId'')
   \<and> ToString example_engine (field branch_step ''branchId'') = Inr (ascii ''b1'')
   \<and> ascii ''b1'' \<notin> set Object_prototype_names
   \<and> (\<exists>r. thoughtHistory (snd (processThought example_engine branch_step new_server)) = [r]
         \<and> map_of (branches (snd (processThought example_engine branch_step new_server))) (ascii ''b1'')
             = Some [r]
         \<and> ascii ''b1''
             \<in> set (Object_keys (branches (snd (processThought example_engine branch_step new_server)))))
   \<and> list_all (\<lambda>(k, records).
          set records \<subseteq> set (thoughtHistory (run example_engine [branch_step, step1, branch_step] new_server)))
        (branches (run example_engine [branch_step, step1, branch_step] new_server))"
proof -
  let ?v = "\<lparr> thought = ascii ''alt'', thoughtNumber = Fin 2,
       totalThoughts = Fin 3, isRevision = JUndefined, revisesThought = JUndefined,
       branchFromThought = JNum (Fin 1), branchId = JStr (ascii ''b1''),
       needsMoreThoughts = JUndefined, nextThoughtNeeded = True \<rparr>"
  have f: "field branch_step ''branchFromThought'' = JNum (Fin 1)"
    "field branch_step ''branchId'' = JStr (ascii ''b1'')"
    by (simp_all add: branch_step_def required_fields_def field_def)
  from branch_registration [of branch_step ?v example_engine "ascii ''b1''" new_server
      "[branch_step, step1, branch_step]"] validate_branch_step f b1_not_inherited
  show ?thesis
    by (simp add: list_all_iff new_server_simps) blast
qed

theorem branch_registration_counterexample:
  "validateThoughtData empty_branch_id = Inr \<lparr> thought = ascii ''alt'', thoughtNumber = Fin 2,
       totalThoughts = Fin 3, isRevision = JUndefined, revisesThought = JUndefined,
       branchFromThought = JNum (Fin 1), branchId = JStr [],
       needsMoreThoughts = JUndefined, nextThoughtNeeded = True \<rparr>
   \<and> field empty_branch_id ''branchFromThought'' = JNum (Fin 1)
   \<and> field empty_branch_id ''branchId'' = JStr []
   \<and> isError (fst (processThought example_engine empty_branch_id new_server)) = None
   \<and> length (thoughtHistory (snd (processThought example_engine empty_branch_id new_server))) = 1
   \<and> branches (snd (processThought example_engine empty_branch_id new_server)) = []
   \<and> map_of (branches (snd (processThought example_engine empty_branch_id new_server))) [] = None"
proof -
  let ?v = "\<lparr> thought = ascii ''alt'', thoughtNumber = Fin 2,
       totalThoughts = Fin 3, isRevision = JUndefined, revisesThought = JUndefined,
       branchFromThought = JNum (Fin 1), branchId = JStr [],
       needsMoreThoughts = JUndefined, nextThoughtNeeded = True \<rparr>"
  note v = validate_empty_branch_id
  have f: "field empty_branch_id ''branchFromThought'' = JNum (Fin 1)"
    "field empty_branch_id ''branchId'' = JStr []"
    by (simp_all add: empty_branch_id_def required_fields_def field_def)
  have b: "branches (snd (processThought example_engine empty_branch_id new_server)) = []"
    by (subst processThought_branches_skipped [OF v]) (simp_all add: new_server_simps)
  have r: "register_branch example_engine (self_correct ?v) s = Inr s" for s
    by (rule register_branch_skip) simp
  obtain formattedThought where "formatThought example_engine (self_correct ?v) = Inr formattedThought"
    using formatThought_primitive [of "self_correct ?v" example_engine] by auto
  then have ok: "isError (fst (processThought example_engine empty_branch_id new_server)) = None"
    by (intro processThought_returns_success [OF v]) (simp_all only: r)
  show ?thesis
    by (simp add: v f b ok processThought_history [OF v] new_server_simps)
qed

section \<open>The history only grows\<close>

text \<open>
  C4: a call whose input passes validation makes the history exactly one record
  longer; no call makes it shorter, and neither does any sequence of calls, whatever
  mix of valid and invalid inputs it holds.
\<close>

theorem history_append_only:
  "(validateThoughtData input = Inr v \<longrightarrow>
      length (thoughtHistory (snd (processThought E input this))) = length (thoughtHistory this) + 1)
   \<and> length (thoughtHistory this) \<le> length (thoughtHistory (snd (processThought E input this)))
   \<and> length (thoughtHistory this) \<le> length (thoughtHistory (run E inputs this))"
proof (intro conjI impI)
  assume "validateThoughtData input = Inr v"
  then show "length (thoughtHistory (snd (processThought E input this))) = length (thoughtHistory this) + 1"
    by (simp add: processThought_history)
next
  show "length (thoughtHistory this) \<le> length (thoughtHistory (snd (processThought E input this)))"
    using history_step [of E input this] by auto
next
  show "length (thoughtHistory this) \<le> length (thoughtHistory (run E inputs this))"
    using history_run [of E inputs this] by auto
qed

theorem history_append_only_witness:
  "validateThoughtData step1 = Inr \<lparr> thought = ascii ''step1'', thoughtNumber = Fin 1,
       totalThoughts = Fin 3, isRevision = JUndefined, revisesThought = JUndefined,
       branchFromThought = JUndefined, branchId = JUndefined, needsMoreThoughts = JUndefined,
       nextThoughtNeeded = True \<rparr>
   \<and> length (thoughtHistory (snd (processThought example_engine step1 new_server)))
       = length (thoughtHistory new_server) + 1
   \<and> length (thoughtHistory new_server)
       \<le> length (thoughtHistory (run example_engine [missing_thought, step1, step2] new_server))"
  using history_append_only [of step1 _ example_engine new_server "[missing_thought, step1, step2]"]
    validate_step1
  by simp

section \<open>The success envelope\<close>



theorem success_envelope_counterexample:
  "validateThoughtData infinite_total = Inr \<lparr> thought = ascii ''open'', thoughtNumber = Fin 1,
       totalThoughts = PosInf, isRevision = JUndefined, revisesThought = JUndefined,
       branchFromThought = JUndefined, branchId = JUndefined, needsMoreThoughts = JUndefined,
       nextThoughtNeeded = True \<rparr>
   \<and> thoughtHistory (snd (processThought example_engine infinite_total new_server)) =
       [\<lparr> thought = ascii ''open'', thoughtNumber = Fin 1,
          totalThoughts = PosInf, isRevision = JUndefined, revisesThought = JUndefined,
          branchFromThought = JUndefined, branchId = JUndefined, needsMoreThoughts = JUndefined,
          nextThoughtNeeded = True \<rparr>]
   \<and> fst (processThought example_engine infinite_total new_server) =
       \<lparr> content = [\<lparr> type = ascii ''text'',
            text = ascii ''{\<newline>  \"thoughtNumber\": 1,\<newline>  \"totalThoughts\": null,\<newline>  \"nextThoughtNeeded\": true,\<newline>  \"branches\": [],\<newline>  \"thoughtHistoryLength\": 1\<newline>}'' \<rparr>],
          isError = None \<rparr>"
proof -
  note v = validate_infinite_total
  have h: "thoughtHistory (snd (processThought example_engine infinite_total new_server)) =
       [\<lparr> thought = ascii ''open'', thoughtNumber = Fin 1,
          totalThoughts = PosInf, isRevision = JUndefined, revisesThought = JUndefined,
          branchFromThought = JUndefined, branchId = JUndefined, needsMoreThoughts = JUndefined,
          nextThoughtNeeded = True \<rparr>]"
    by (simp add: processThought_history [OF v] new_server_simps self_correct_def)
  have e: "fst (processThought example_engine infinite_total new_server) =
       \<lparr> content = [\<lparr> type = ascii ''text'',
            text = ascii ''{\<newline>  \"thoughtNumber\": 1,\<newline>  \"totalThoughts\": null,\<newline>  \"nextThoughtNeeded\": true,\<newline>  \"branches\": [],\<newline>  \"thoughtHistoryLength\": 1\<newline>}'' \<rparr>],
          isError = None \<rparr>"
    by (subst processThought_plain_response(1) [OF v])
       (simp_all add: success_response_def success_text self_correct_def new_server_simps
          bracketed_def Number_toString_small, simp add: ascii_def)
  from v h e show ?thesis by blast
qed

section \<open>Reading the state for the response\<close>

text \<open>
  C9: building the response leaves the state as it is; built again from the state it
  returns, it gives the same response and state; the members \<open>branches\<close> and
  \<open>thoughtHistoryLength\<close> of the object it serialises are the keys of \<open>branches\<close> and
  the length of the history of that state, and its text ends with these two members.
  Every success envelope of \<open>processThought\<close> is the response built from the state
  that the call leaves behind, so what it reports is what that state holds.
\<close>

theorem response_is_read_only:
  "snd (success_response E r this) = this
   \<and> success_response E r (snd (success_response E r this)) = success_response E r this
   \<and> field (JObj (success_body r this)) ''branches''
       = JArr (map JStr (Object_keys (branches this)))
   \<and> field (JObj (success_body r this)) ''thoughtHistoryLength''
       = JNum (Fin (of_nat (length (thoughtHistory this))))
   \<and> (\<exists>before. content (fst (success_response E r this)) =
         [\<lparr> type = ascii ''text'',
             text = before @ ascii '',\<newline>  \"branches\": ''
               @ bracketed 0x5B 0x5D 1 (map QuoteJSONString (Object_keys (branches this)))
               @ ascii '',\<newline>  \"thoughtHistoryLength\": ''
               @ Number_toString E (Fin (of_nat (length (thoughtHistory this))))
               @ ascii ''\<newline>}'' \<rparr>])
   \<and> (isError (fst (processThought E input this)) = None \<longrightarrow>
        (\<exists>v. fst (processThought E input this)
                = fst (success_response E v (snd (processThought E input this))))
        \<and> (\<exists>before. content (fst (processThought E input this)) =
             [\<lparr> type = ascii ''text'',
                 text = before @ ascii '',\<newline>  \"branches\": ''
                   @ bracketed 0x5B 0x5D 1
                       (map QuoteJSONString (Object_keys (branches (snd (processThought E input this)))))
                   @ ascii '',\<newline>  \"thoughtHistoryLength\": ''
                   @ Number_toString E
                       (Fin (of_nat (length (thoughtHistory (snd (processThought E input this))))))
                   @ ascii ''\<newline>}'' \<rparr>]))"
proof -
  have t: "\<exists>before. content (fst (success_response E x s)) =
         [\<lparr> type = ascii ''text'',
             text = before @ ascii '',\<newline>  \"branches\": ''
               @ bracketed 0x5B 0x5D 1 (map QuoteJSONString (Object_keys (branches s)))
               @ ascii '',\<newline>  \"thoughtHistoryLength\": ''
               @ Number_toString E (Fin (of_nat (length (thoughtHistory s))))
               @ ascii ''\<newline>}'' \<rparr>]" for x s
    unfolding success_response_def success_text fst_conv envelope.select_convs
    by (rule exI [of _ "ascii ''{\<newline>  \"thoughtNumber\": ''
          @ (if thoughtNumber x = NaN \<or> thoughtNumber x = PosInf \<or> thoughtNumber x = NegInf
             then ascii ''null'' else Number_toString E (thoughtNumber x))
          @ ascii '',\<newline>  \"totalThoughts\": ''
          @ (if totalThoughts x = NaN \<or> totalThoughts x = PosInf \<or> totalThoughts x = NegInf
             then ascii ''null'' else Number_toString E (totalThoughts x))
          @ ascii '',\<newline>  \"nextThoughtNeeded\": ''
          @ ascii (if nextThoughtNeeded x then ''true'' else ''false'')"])
       (simp only: append_assoc)
  have p: "(\<exists>v. fst (processThought E input this)
                = fst (success_response E v (snd (processThought E input this))))
        \<and> (\<exists>before. content (fst (processThought E input this)) =
             [\<lparr> type = ascii ''text'',
                 text = before @ ascii '',\<newline>  \"branches\": ''
                   @ bracketed 0x5B 0x5D 1
                       (map QuoteJSONString (Object_keys (branches (snd (processThought E input this)))))
                   @ ascii '',\<newline>  \"thoughtHistoryLength\": ''
                   @ Number_toString E
                       (Fin (of_nat (length (thoughtHistory (snd (processThought E input this))))))
                   @ ascii ''\<newline>}'' \<rparr>])"
    if ok: "isError (fst (processThought E input this)) = None"
  proof -
    from processThought_success [OF ok] obtain v
      where r: "fst (processThought E input this)
          = fst (success_response E (self_correct v) (snd (processThought E input this)))"
      by blast
    show ?thesis
      by (rule conjI, rule exI [of _ "self_correct v"], rule r, subst r, rule t)
  qed
  have a: "snd (success_response E r this) = this"
    and b: "success_response E r (snd (success_response E r this)) = success_response E r this"
    and c: "field (JObj (success_body r this)) ''branches''
       = JArr (map JStr (Object_keys (branches this)))"
    and d: "field (JObj (success_body r this)) ''thoughtHistoryLength''
       = JNum (Fin (of_nat (length (thoughtHistory this))))"
    by (simp_all add: success_response_def success_body_def field_def)
  from a b c d t [of r this] p show ?thesis
    by (intro conjI impI) blast+
qed

theorem response_is_read_only_witness:
  "isError (fst (processThought example_engine branch_step new_server)) = None
   \<and> snd (success_response example_engine revision_of_two new_server) = new_server
   \<and> success_response example_engine revision_of_two
        (snd (success_response example_engine revision_of_two new_server))
       = success_response example_engine revision_of_two new_server
   \<and> (\<exists>before. content (fst (processThought example_engine branch_step new_server)) =
         [\<lparr> type = ascii ''text'',
             text = before
               @ ascii '',\<newline>  \"branches\": [\<newline>    \"b1\"\<newline>  ],\<newline>  \"thoughtHistoryLength\": 1\<newline>}'' \<rparr>])"
proof -
  note ok = processThought_branch_step(1) [of example_engine]
  have q: "QuoteJSONString (ascii ''b1'') = ascii ''\"b1\"''"
    by (simp add: QuoteJSONString_def quote_unit_def ascii_def)
  from response_is_read_only [of example_engine revision_of_two new_server branch_step] ok
  obtain before where b: "content (fst (processThought example_engine branch_step new_server)) =
             [\<lparr> type = ascii ''text'',
                 text = before @ ascii '',\<newline>  \"branches\": ''
                   @ bracketed 0x5B 0x5D 1
                       (map QuoteJSONString
                          (Object_keys (branches (snd (processThought example_engine branch_step new_server)))))
                   @ ascii '',\<newline>  \"thoughtHistoryLength\": ''
                   @ Number_toString example_engine
                       (Fin (of_nat (length (thoughtHistory (snd (processThought example_engine branch_step new_server))))))
                   @ ascii ''\<newline>}'' \<rparr>]"
    by blast
  have "content (fst (processThought example_engine branch_step new_server)) =
         [\<lparr> type = ascii ''text'',
             text = before
               @ ascii '',\<newline>  \"branches\": [\<newline>    \"b1\"\<newline>  ],\<newline>  \"thoughtHistoryLength\": 1\<newline>}'' \<rparr>]"
    by (subst b)
       (simp add: processThought_branch_step Object_keys_b1 bracketed_def indent_simps q
          Number_toString_small, simp add: ascii_def)
  with response_is_read_only [of example_engine revision_of_two new_server branch_step] ok
  show ?thesis
    by blast
qed

section \<open>Records are stored as validated and never changed\<close>

text \<open>
  C8: the record that a valid input appends to the history agrees with the validator's
  output on \<open>thought\<close>, \<open>thoughtNumber\<close>, \<open>nextThoughtNeeded\<close>, \<open>isRevision\<close>,
  \<open>revisesThought\<close>, \<open>branchFromThought\<close>, \<open>branchId\<close> and \<open>needsMoreThoughts\<close>; a branch
  sequence either stays as it was or gains that same record at its end; and whatever
  calls follow, the history they lead to begins with the history as it is now.
\<close>

theorem stored_record_is_validated_record:
  assumes "validateThoughtData input = Inr v"
  shows "\<exists>r. thoughtHistory (snd (processThought E input this)) = thoughtHistory this @ [r]
    \<and> thought r = thought v \<and> thoughtNumber r = thoughtNumber v
    \<and> nextThoughtNeeded r = nextThoughtNeeded v \<and> isRevision r = isRevision v
    \<and> revisesThought r = revisesThought v \<and> branchFromThought r = branchFromThought v
    \<and> branchId r = branchId v \<and> needsMoreThoughts r = needsMoreThoughts v
    \<and> (\<forall>key. map_of (branches (snd (processThought E input this))) key = map_of (branches this) key
            \<or> map_of (branches (snd (processThought E input this))) key
                = Some ((case map_of (branches this) key of None \<Rightarrow> [] | Some records \<Rightarrow> records) @ [r]))
    \<and> take (length (thoughtHistory (snd (processThought E input this))))
          (thoughtHistory (run E inputs (snd (processThought E input this))))
        = thoughtHistory (snd (processThought E input this))"
proof -
  let ?this' = "snd (processThought E input this)"
  from processThought_valid_state [OF assms, of E this]
  have h: "thoughtHistory ?this' = thoughtHistory this @ [self_correct v]"
    and b: "branches ?this' = branches this
        \<or> (\<exists>key. branches ?this' = registered key (self_correct v) (branches this))"
    by blast+
  from b have m: "map_of (branches ?this') key = map_of (branches this) key
      \<or> map_of (branches ?this') key
          = Some ((case map_of (branches this) key of None \<Rightarrow> [] | Some records \<Rightarrow> records)
                  @ [self_correct v])" for key
    by (auto simp: map_of_registered)
  obtain ys where "thoughtHistory (run E inputs ?this') = thoughtHistory ?this' @ ys"
    using history_run by blast
  then have p: "take (length (thoughtHistory ?this')) (thoughtHistory (run E inputs ?this'))
      = thoughtHistory ?this'"
    by simp
  from h m p show ?thesis
    by (intro exI [of _ "self_correct v"]) simp
qed

theorem stored_record_is_validated_record_witness:
  "validateThoughtData branch_step = Inr \<lparr> thought = ascii ''alt'', thoughtNumber = Fin 2,
       totalThoughts = Fin 3, isRevision = JUndefined, revisesThought = JUndefined,
       branchFromThought = JNum (Fin 1), branchId = JStr (ascii ''b1''),
       needsMoreThoughts = JUndefined, nextThoughtNeeded = True \<rparr>
   \<and> (\<exists>r. thoughtHistory (snd (processThought example_engine branch_step new_server)) = [r]
       \<and> thought r = ascii ''alt'' \<and> thoughtNumber r = Fin 2 \<and> nextThoughtNeeded r
       \<and> isRevision r = JUndefined \<and> revisesThought r = JUndefined
       \<and> branchFromThought r = JNum (Fin 1) \<and> branchId r = JStr (ascii ''b1'')
       \<and> needsMoreThoughts r = JUndefined)
   \<and> take (length (thoughtHistory (snd (processThought example_engine branch_step new_server))))
        (thoughtHistory (run example_engine [step2, missing_thought, branch_step]
                          (snd (processThought example_engine branch_step new_server))))
      = thoughtHistory (snd (processThought example_engine branch_step new_server))"
  using stored_record_is_validated_record [OF validate_branch_step, of example_engine new_server
      "[step2, missing_thought, branch_step]"] validate_branch_step
  by (simp add: new_server_simps) blast

section \<open>A call that fails validation\<close>

text \<open>
  C10: when the validator rejects the input, the call leaves the whole session state as
  it was: the history, the branches (their keys and every branch sequence) and the log.
\<close>

theorem invalid_input_leaves_state:
  assumes "validateThoughtData input = Inl e"
  shows "snd (processThought E input this) = this
    \<and> thoughtHistory (snd (processThought E input this)) = thoughtHistory this
    \<and> branches (snd (processThought E input this)) = branches this
    \<and> Object_keys (branches (snd (processThought E input this))) = Object_keys (branches this)"
  using assms by (simp add: processThought_invalid)

theorem invalid_input_leaves_state_witness:
  "validateThoughtData missing_thought = Inl (Error (ascii ''Invalid thought: must be a string''))
   \<and> snd (processThought example_engine missing_thought (run example_engine [branch_step] new_server))
       = run example_engine [branch_step] new_server
   \<and> thoughtHistory (snd (processThought example_engine missing_thought
                              (run example_engine [branch_step] new_server)))
       = thoughtHistory (run example_engine [branch_step] new_server)
   \<and> branches (snd (processThought example_engine missing_thought
                        (run example_engine [branch_step] new_server)))
       = branches (run example_engine [branch_step] new_server)
   \<and> Object_keys (branches (snd (processThought example_engine missing_thought
                                     (run example_engine [branch_step] new_server))))
       = Object_keys (branches (run example_engine [branch_step] new_server))"
proof -
  have rejected: "validateThoughtData missing_thought
      = Inl (Error (ascii ''Invalid thought: must be a string''))"
    by (simp add: validateThoughtData_def missing_thought_def)
  from invalid_input_leaves_state [OF rejected] rejected show ?thesis
    by blast
qed

section \<open>The error envelope\<close>

text \<open>
  C5: when the validator rejects the input, \<open>processThought\<close> returns (it does not
  throw) the unchanged state and an envelope with \<open>isError: true\<close>, whose text is the
  JSON text of an object with the two members \<open>error\<close> and \<open>status\<close>, in this order and
  indented by two spaces. \<open>status\<close> is \<open>failed\<close>. \<open>error\<close> is the message of the first
  test that failed: \<open>Invalid thought: must be a string\<close>,
  \<open>Invalid thoughtNumber: must be a number\<close>, \<open>Invalid totalThoughts: must be a number\<close>
  or \<open>Invalid nextThoughtNeeded: must be a boolean\<close>; for the inputs \<open>undefined\<close> and
  \<open>null\<close> it is the engine's message for the failed property read, quoted as JSON
  quotes it (unchanged when it has no quotation mark, backslash, control character or
  surrogate). The history keeps its length, and an object without \<open>thought\<close> gets the
  first message. Whatever the input, the call returns one of the two envelopes: every
  exception of the \<open>try\<close> block ends in the \<open>catch\<close>.
\<close>

theorem invalid_input_error_envelope:
  "(validateThoughtData input = Inl e \<longrightarrow>
      processThought E input this =
        (\<lparr> content = [\<lparr> type = ascii ''text'',
             text = ascii ''{\<newline>  \"error\": ''
               @ (if input = JUndefined \<or> input = JNull then
                    QuoteJSONString (TypeError_message E (CannotReadProperty input (ascii ''thought'')))
                  else if \<not> non_empty_string (field input ''thought'') then
                    ascii ''\"Invalid thought: must be a string\"''
                  else if \<not> non_zero_number (field input ''thoughtNumber'') then
                    ascii ''\"Invalid thoughtNumber: must be a number\"''
                  else if \<not> non_zero_number (field input ''totalThoughts'') then
                    ascii ''\"Invalid totalThoughts: must be a number\"''
                  else
                    ascii ''\"Invalid nextThoughtNeeded: must be a boolean\"'')
               @ ascii '',\<newline>  \"status\": \"failed\"\<newline>}'' \<rparr>],
           isError = Some True \<rparr>, this)
      \<and> length (thoughtHistory (snd (processThought E input this))) = length (thoughtHistory this)
      \<and> (\<forall>kvs. input = JObj kvs \<and> map_of kvs (ascii ''thought'') = None \<longrightarrow>
            fst (processThought E input this) =
              \<lparr> content = [\<lparr> type = ascii ''text'',
                   text = ascii ''{\<newline>  \"error\": \"Invalid thought: must be a string\",\<newline>  \"status\": \"failed\"\<newline>}'' \<rparr>],
                 isError = Some True \<rparr>)
      \<and> ((input = JUndefined \<or> input = JNull)
          \<and> (\<forall>c \<in> set (TypeError_message E (CannotReadProperty input (ascii ''thought''))).
                 0x20 \<le> c \<and> c \<noteq> 0x22 \<and> c \<noteq> 0x5C \<and> c < 0xD800) \<longrightarrow>
            fst (processThought E input this) =
              \<lparr> content = [\<lparr> type = ascii ''text'',
                   text = ascii ''{\<newline>  \"error\": \"''
                     @ TypeError_message E (CannotReadProperty input (ascii ''thought''))
                     @ ascii ''\",\<newline>  \"status\": \"failed\"\<newline>}'' \<rparr>],
                 isError = Some True \<rparr>))
   \<and> ((\<exists>thrown. fst (processThought E input this) = error_response E thrown)
       \<or> (\<exists>r. fst (processThought E input this)
                = fst (success_response E r (snd (processThought E input this)))))"
proof (intro conjI allI impI)
  assume rejected: "validateThoughtData input = Inl e"
  have p: "processThought E input this = (error_response E e, this)"
    using rejected by (rule processThought_invalid)
  from rejected have e: "e =
    (if input = JUndefined \<or> input = JNull then
       TypeError (CannotReadProperty input (ascii ''thought''))
     else if \<not> non_empty_string (field input ''thought'') then
       Error (ascii ''Invalid thought: must be a string'')
     else if \<not> non_zero_number (field input ''thoughtNumber'') then
       Error (ascii ''Invalid thoughtNumber: must be a number'')
     else if \<not> non_zero_number (field input ''totalThoughts'') then
       Error (ascii ''Invalid totalThoughts: must be a number'')
     else
       Error (ascii ''Invalid nextThoughtNeeded: must be a boolean''))"
    using validate_by_shape [of input] by (auto split: if_splits)
  show "processThought E input this =
        (\<lparr> content = [\<lparr> type = ascii ''text'',
             text = ascii ''{\<newline>  \"error\": ''
               @ (if input = JUndefined \<or> input = JNull then
                    QuoteJSONString (TypeError_message E (CannotReadProperty input (ascii ''thought'')))
                  else if \<not> non_empty_string (field input ''thought'') then
                    ascii ''\"Invalid thought: must be a string\"''
                  else if \<not> non_zero_number (field input ''thoughtNumber'') then
                    ascii ''\"Invalid thoughtNumber: must be a number\"''
                  else if \<not> non_zero_number (field input ''totalThoughts'') then
                    ascii ''\"Invalid totalThoughts: must be a number\"''
                  else
                    ascii ''\"Invalid nextThoughtNeeded: must be a boolean\"'')
               @ ascii '',\<newline>  \"status\": \"failed\"\<newline>}'' \<rparr>],
           isError = Some True \<rparr>, this)"
    unfolding p by (subst e) (simp add: error_response_def error_text message_def quote_messages)
  show "length (thoughtHistory (snd (processThought E input this))) = length (thoughtHistory this)"
    by (simp add: p)
  {
    fix kvs
    assume "input = JObj kvs \<and> map_of kvs (ascii ''thought'') = None"
    then have "e = Error (ascii ''Invalid thought: must be a string'')"
      by (subst e) (simp add: field_def non_empty_string_def)
    then show "fst (processThought E input this) =
              \<lparr> content = [\<lparr> type = ascii ''text'',
                   text = ascii ''{\<newline>  \"error\": \"Invalid thought: must be a string\",\<newline>  \"status\": \"failed\"\<newline>}'' \<rparr>],
                 isError = Some True \<rparr>"
      by (simp add: p error_response_def error_text message_def quote_messages) (simp add: ascii_def)
  }
  assume n: "(input = JUndefined \<or> input = JNull)
          \<and> (\<forall>c \<in> set (TypeError_message E (CannotReadProperty input (ascii ''thought''))).
                 0x20 \<le> c \<and> c \<noteq> 0x22 \<and> c \<noteq> 0x5C \<and> c < 0xD800)"
  then have q: "quote_units (TypeError_message E (CannotReadProperty input (ascii ''thought'')))
      = TypeError_message E (CannotReadProperty input (ascii ''thought''))"
    by (intro quote_units_plain) blast
  from n have "e = TypeError (CannotReadProperty input (ascii ''thought''))"
    by (subst e) simp
  then show "fst (processThought E input this) =
              \<lparr> content = [\<lparr> type = ascii ''text'',
                   text = ascii ''{\<newline>  \"error\": \"''
                     @ TypeError_message E (CannotReadProperty input (ascii ''thought''))
                     @ ascii ''\",\<newline>  \"status\": \"failed\"\<newline>}'' \<rparr>],
                 isError = Some True \<rparr>"
    by (simp add: p error_response_def error_text message_def QuoteJSONString_def q)
       (simp add: ascii_def)
next
  show "(\<exists>thrown. fst (processThought E input this) = error_response E thrown)
       \<or> (\<exists>r. fst (processThought E input this)
                = fst (success_response E r (snd (processThought E input this))))"
  proof (cases "isError (fst (processThought E input this)) = None")
    case True
    from processThought_success [OF True] show ?thesis by blast
  next
    case False
    have "\<exists>thrown. fst (processThought E input this) = error_response E thrown"
    proof (cases "validateThoughtData input")
      case (Inl thrown)
      then show ?thesis by (auto simp: processThought_invalid)
    next
      case (Inr v)
      with False show ?thesis
        by (auto simp: processThought_valid success_response_def split: sum.splits)
    qed
    then show ?thesis by blast
  qed
qed

theorem invalid_input_error_envelope_witness:
  "validateThoughtData missing_thought = Inl (Error (ascii ''Invalid thought: must be a string''))
   \<and> processThought example_engine missing_thought new_server =
      (\<lparr> content = [\<lparr> type = ascii ''text'',
           text = ascii ''{\<newline>  \"error\": \"Invalid thought: must be a string\",\<newline>  \"status\": \"failed\"\<newline>}'' \<rparr>],
         isError = Some True \<rparr>, new_server)
   \<and> length (thoughtHistory (snd (processThought example_engine missing_thought new_server)))
       = length (thoughtHistory new_server)
   \<and> validateThoughtData zero_number = Inl (Error (ascii ''Invalid thoughtNumber: must be a number''))
   \<and> processThought example_engine zero_number new_server =
      (\<lparr> content = [\<lparr> type = ascii ''text'',
           text = ascii ''{\<newline>  \"error\": \"Invalid thoughtNumber: must be a number\",\<newline>  \"status\": \"failed\"\<newline>}'' \<rparr>],
         isError = Some True \<rparr>, new_server)
   \<and> validateThoughtData JNull = Inl (TypeError (CannotReadProperty JNull (ascii ''thought'')))
   \<and> fst (processThought example_engine JNull new_server) =
      \<lparr> content = [\<lparr> type = ascii ''text'',
           text = ascii ''{\<newline>  \"error\": \"Cannot read properties of null (reading ''
                  @ [0x27] @ ascii ''thought'' @ [0x27]
                  @ ascii '')\",\<newline>  \"status\": \"failed\"\<newline>}'' \<rparr>],
         isError = Some True \<rparr>"
proof -
  have z: "validateThoughtData zero_number = Inl (Error (ascii ''Invalid thoughtNumber: must be a number''))"
    by (simp add: zero_number_def required_fields_def validateThoughtData_def field_def)
  have fm: "\<not> non_empty_string (field missing_thought ''thought'')"
    "missing_thought \<noteq> JUndefined" "missing_thought \<noteq> JNull"
    by (simp_all add: missing_thought_def field_def non_empty_string_def)
  have fz: "non_empty_string (field zero_number ''thought'')"
    "\<not> non_zero_number (field zero_number ''thoughtNumber'')"
    "zero_number \<noteq> JUndefined" "zero_number \<noteq> JNull"
    by (simp_all add: zero_number_def required_fields_def field_def non_empty_string_def
        non_zero_number_def)
  have n: "validateThoughtData JNull = Inl (TypeError (CannotReadProperty JNull (ascii ''thought'')))"
    by (simp add: validate_nullish)
  have m: "TypeError_message example_engine (CannotReadProperty JNull (ascii ''thought''))
      = ascii ''Cannot read properties of null (reading '' @ [0x27] @ ascii ''thought'' @ [0x27]
        @ ascii '')''"
    by (simp add: engine_simps v8_message_def ascii_def)
  have plain: "\<forall>c \<in> set (TypeError_message example_engine (CannotReadProperty JNull (ascii ''thought''))).
      0x20 \<le> c \<and> c \<noteq> 0x22 \<and> c \<noteq> 0x5C \<and> c < 0xD800"
    unfolding m by (simp add: ascii_def)
  from invalid_input_error_envelope [of missing_thought
      "Error (ascii ''Invalid thought: must be a string'')" example_engine new_server]
    validate_missing_thought fm
  have a: "processThought example_engine missing_thought new_server =
      (\<lparr> content = [\<lparr> type = ascii ''text'',
           text = ascii ''{\<newline>  \"error\": \"Invalid thought: must be a string\",\<newline>  \"status\": \"failed\"\<newline>}'' \<rparr>],
         isError = Some True \<rparr>, new_server)"
    and a': "length (thoughtHistory (snd (processThought example_engine missing_thought new_server)))
       = length (thoughtHistory new_server)"
    by (simp_all add: ascii_def)
  from invalid_input_error_envelope [of zero_number
      "Error (ascii ''Invalid thoughtNumber: must be a number'')" example_engine new_server] z fz
  have b: "processThought example_engine zero_number new_server =
      (\<lparr> content = [\<lparr> type = ascii ''text'',
           text = ascii ''{\<newline>  \"error\": \"Invalid thoughtNumber: must be a number\",\<newline>  \"status\": \"failed\"\<newline>}'' \<rparr>],
         isError = Some True \<rparr>, new_server)"
    by (simp add: ascii_def)
  from invalid_input_error_envelope [of JNull
      "TypeError (CannotReadProperty JNull (ascii ''thought''))" example_engine new_server] n plain
  have c: "fst (processThought example_engine JNull new_server) =
      \<lparr> content = [\<lparr> type = ascii ''text'',
           text = ascii ''{\<newline>  \"error\": \"''
                  @ TypeError_message example_engine (CannotReadProperty JNull (ascii ''thought''))
                  @ ascii ''\",\<newline>  \"status\": \"failed\"\<newline>}'' \<rparr>],
         isError = Some True \<rparr>"
    by blast
  have c': "fst (processThought example_engine JNull new_server) =
      \<lparr> content = [\<lparr> type = ascii ''text'',
           text = ascii ''{\<newline>  \"error\": \"Cannot read properties of null (reading ''
                  @ [0x27] @ ascii ''thought'' @ [0x27]
                  @ ascii '')\",\<newline>  \"status\": \"failed\"\<newline>}'' \<rparr>],
         isError = Some True \<rparr>"
    unfolding c m by (simp add: ascii_def)
  from validate_missing_thought a a' z b n c' show ?thesis
    by blast
qed


end
